theory Spec2Isabelle
  imports Complex_Main "HOL-Library.Sublist" "HOL-Library.Multiset" "HOL-Library.Log_Nat"
    "HOL-Library.Code_Target_Numeral"
begin

section \<open>Python strings\<close>

text \<open>
  A Python \<open>str\<close> is a sequence of Unicode code points and \<open>len\<close> counts code points.
  The report uses the glyphs U+2588, U+2591 and U+2022, which are no 8-bit characters, so a
  string is modelled as the list of its code points. \<open>S\<close> reads an ASCII literal.
\<close>

type_synonym pystr = "nat list"

definition S :: "string \<Rightarrow> pystr" where
  "S s = map of_char s"

text \<open>\<open>sep.join(xs)\<close>\<close>

fun join :: "pystr \<Rightarrow> pystr list \<Rightarrow> pystr" where
  "join sep [] = []"
| "join sep [x] = x"
| "join sep (x # y # ys) = x @ sep @ join sep (y # ys)"

text \<open>
  \<open>str.lower()\<close> on the letters A to Z. The case mapping of the other code points is left
  out (they are returned unchanged).
\<close>

definition lower_char :: "nat \<Rightarrow> nat" where
  "lower_char c = (if 65 \<le> c \<and> c \<le> 90 then c + 32 else c)"

definition lower :: "pystr \<Rightarrow> pystr" where
  "lower s = map lower_char s"

text \<open>\<open>sub in text\<close>: \<open>sub\<close> occurs in \<open>text\<close> as a contiguous substring.\<close>

fun contains :: "pystr \<Rightarrow> pystr \<Rightarrow> bool" where
  "contains [] sub = (sub = [])"
| "contains (c # cs) sub = (prefix sub (c # cs) \<or> contains cs sub)"

text \<open>
  \<open>text.count(sub)\<close>: the number of non-overlapping occurrences, found from left to right;
  for the empty \<open>sub\<close> it is \<open>len(text) + 1\<close>.
\<close>

fun count_from :: "pystr \<Rightarrow> pystr \<Rightarrow> nat" where
  "count_from sub [] = 0"
| "count_from sub (c # cs) =
     (if sub \<noteq> [] \<and> prefix sub (c # cs)
      then Suc (count_from sub (drop (length sub) (c # cs)))
      else count_from sub cs)"

definition count_str :: "pystr \<Rightarrow> pystr \<Rightarrow> nat" where
  "count_str text sub = (if sub = [] then length text + 1 else count_from sub text)"

text \<open>\<open>sum(text.count(keyword) for keyword in keywords)\<close>\<close>

definition count_keywords :: "pystr \<Rightarrow> pystr list \<Rightarrow> int" where
  "count_keywords text keywords = int (sum_list (map (count_str text) keywords))"

text \<open>\<open>any(word in text for word in words)\<close>\<close>

definition any_in :: "pystr list \<Rightarrow> pystr \<Rightarrow> bool" where
  "any_in ws text = list_ex (contains text) ws"


section \<open>Records fetched from Reddit\<close>

text \<open>
  The scraper builds each post and each comment as a dictionary with a fixed set of keys
  (\<open>get_user_posts\<close>, \<open>get_user_comments\<close>), so \<open>d.get(k, '')\<close> and \<open>d[k]\<close> both read
  the field. The keys \<open>id\<close>, \<open>subreddit\<close>, \<open>score\<close>, \<open>created_utc\<close> and \<open>url\<close> occur in both
  dictionaries and carry a prefix here.
\<close>

record post =
  p_id :: pystr
  title :: pystr
  selftext :: pystr
  p_subreddit :: pystr
  p_score :: int
  p_created_utc :: int
  p_url :: pystr
  num_comments :: int

record comment =
  c_id :: pystr
  body :: pystr
  c_subreddit :: pystr
  c_score :: int
  c_created_utc :: int
  c_url :: pystr
  link_title :: pystr

section \<open>PersonaAnalyzer.analyze_demographics\<close>

text \<open>
  The indicator tables are dictionary literals; a Python dictionary iterates in insertion
  order, so each is an association list in the order of the source.
\<close>

definition age_indicators :: "(pystr \<times> pystr) list" where
  "age_indicators =
    [(S ''college'', S ''20-22''), (S ''university'', S ''18-25''), (S ''student'', S ''18-25''),
     (S ''graduated'', S ''22-30''), (S ''job'', S ''25-35''), (S ''career'', S ''25-40''),
     (S ''retirement'', S ''60+''), (S ''kids'', S ''28-45''), (S ''children'', S ''28-45''),
     (S ''mortgage'', S ''30-50''), (S ''marriage'', S ''25-40'')]"

definition location_indicators :: "(pystr \<times> pystr) list" where
  "location_indicators =
    [(S ''usa'', S ''United States''), (S ''america'', S ''United States''),
     (S ''us'', S ''United States''), (S ''canada'', S ''Canada''),
     (S ''uk'', S ''United Kingdom''), (S ''britain'', S ''United Kingdom''),
     (S ''australia'', S ''Australia''), (S ''germany'', S ''Germany''),
     (S ''france'', S ''France''), (S ''europe'', S ''Europe'')]"

definition occupation_keywords :: "(pystr \<times> pystr) list" where
  "occupation_keywords =
    [(S ''software'', S ''Software Developer''), (S ''programming'', S ''Software Developer''),
     (S ''coding'', S ''Software Developer''), (S ''developer'', S ''Software Developer''),
     (S ''engineer'', S ''Engineer''), (S ''teacher'', S ''Teacher''),
     (S ''student'', S ''Student''), (S ''doctor'', S ''Healthcare Professional''),
     (S ''nurse'', S ''Healthcare Professional''), (S ''manager'', S ''Manager''),
     (S ''designer'', S ''Designer''), (S ''marketing'', S ''Marketing Professional''),
     (S ''sales'', S ''Sales Professional''), (S ''finance'', S ''Finance Professional''),
     (S ''lawyer'', S ''Legal Professional'')]"

text \<open>
  \<open>value = 'Unknown'; for keyword, v in table.items(): if keyword in text: value = v; break\<close>
\<close>

fun first_indicator :: "(pystr \<times> pystr) list \<Rightarrow> pystr \<Rightarrow> pystr" where
  "first_indicator [] text = S ''Unknown''"
| "first_indicator ((keyword, v) # rest) text =
     (if contains text keyword then v else first_indicator rest text)"

record demographics =
  age :: pystr
  occupation :: pystr
  status :: pystr
  location :: pystr

definition demographics_text :: "post list \<Rightarrow> comment list \<Rightarrow> pystr" where
  "demographics_text posts comments =
     lower (join (S '' '')
       (concat (map (\<lambda>p. [title p, selftext p]) posts) @ map body comments))"

definition relationship_status :: "pystr \<Rightarrow> pystr" where
  "relationship_status combined_text =
     (if any_in [S ''wife'', S ''husband'', S ''married'', S ''spouse''] combined_text
      then S ''Married''
      else if any_in [S ''girlfriend'', S ''boyfriend'', S ''dating''] combined_text
      then S ''In Relationship''
      else if any_in [S ''single'', S ''dating app''] combined_text
      then S ''Single''
      else S ''Unknown'')"

definition analyze_demographics :: "post list \<Rightarrow> comment list \<Rightarrow> demographics" where
  "analyze_demographics posts comments =
     (let combined_text = demographics_text posts comments in
      \<lparr>age = first_indicator age_indicators combined_text,
       occupation = first_indicator occupation_keywords combined_text,
       status = relationship_status combined_text,
       location = first_indicator location_indicators combined_text\<rparr>)"

section \<open>Floating point\<close>

text \<open>
  \<open>int((score / total) * 100)\<close> divides two integers into a float, multiplies the float by
  100 and truncates. Python floats are IEEE 754 binary64 numbers; each operation returns the
  representable number nearest to the exact result, a tie going to the even significand.
  The scores are never negative, so only the finite doubles that are not negative are
  modelled: the pair \<open>(m, e)\<close> stands for \<open>m \<times> 2\<^sup>e\<close>, with \<open>m < 2\<^sup>5\<^sup>3\<close> after rounding
  (or equal to it, which is the next power of two) and \<open>e \<ge> -1074\<close>.
\<close>

type_synonym double = "nat \<times> int"

definition double_val :: "double \<Rightarrow> rat" where
  "double_val x = (if 0 \<le> snd x then of_nat (fst x) * 2 ^ nat (snd x)
                   else of_nat (fst x) / 2 ^ nat (- snd x))"

text \<open>The integer nearest to \<open>n / d\<close>, a tie going to the even one.\<close>

definition round_div_even :: "nat \<Rightarrow> nat \<Rightarrow> nat" where
  "round_div_even n d =
     (let q = n div d; r = n mod d in
      if 2 * r < d then q
      else if d < 2 * r then q + 1
      else if even q then q else q + 1)"

text \<open>
  The exponent \<open>e\<close> of the binade of \<open>n / d\<close>, \<open>2\<^sup>e \<le> n / d < 2\<^sup>e\<^sup>+\<^sup>1\<close>, from the bit lengths
  of \<open>n\<close> and \<open>d\<close> (\<open>floorlog 2\<close>).
\<close>

definition binade :: "nat \<Rightarrow> nat \<Rightarrow> int" where
  "binade n d =
     (let t = int (floorlog 2 d) - int (floorlog 2 n) in
      if (if 0 \<le> t then d \<le> n * 2 ^ nat t else d * 2 ^ nat (- t) \<le> n) then - t else - t - 1)"

text \<open>
  The double nearest to \<open>n / d\<close> (\<open>d > 0\<close>, \<open>n / d\<close> below the overflow threshold): 53
  significant bits in the normal range, multiples of \<open>2\<^sup>-\<^sup>1\<^sup>0\<^sup>7\<^sup>4\<close> below it.
\<close>

definition round_to_double :: "nat \<Rightarrow> nat \<Rightarrow> double" where
  "round_to_double n d =
     (if n = 0 then (0, 0)
      else let e = max (binade n d - 52) (- 1074) in
        if 0 \<le> e then (round_div_even n (d * 2 ^ nat e), e)
        else (round_div_even (n * 2 ^ nat (- e)) d, e))"

text \<open>
  \<open>a / b\<close> on integers \<open>a \<ge> 0\<close>, \<open>b > 0\<close>: CPython returns the correctly rounded quotient.
  The callers test \<open>total == 0\<close> first, so the ZeroDivisionError branch is never reached.
\<close>

definition true_div :: "int \<Rightarrow> int \<Rightarrow> double" where
  "true_div a b = round_to_double (nat a) (nat b)"

text \<open>
  \<open>x * k\<close> for a float \<open>x\<close> and an integer \<open>0 \<le> k < 2\<^sup>5\<^sup>3\<close>: \<open>k\<close> converts to a float
  exactly and the exact product is rounded.
\<close>

definition float_mul_int :: "double \<Rightarrow> int \<Rightarrow> double" where
  "float_mul_int x k =
     (if 0 \<le> snd x then round_to_double (fst x * nat k * 2 ^ nat (snd x)) 1
      else round_to_double (fst x * nat k) (2 ^ nat (- snd x)))"

text \<open>\<open>int(x)\<close> truncates toward zero.\<close>

definition int_of_float :: "double \<Rightarrow> int" where
  "int_of_float x =
     (if 0 \<le> snd x then int (fst x * 2 ^ nat (snd x)) else int (fst x div 2 ^ nat (- snd x)))"

section \<open>PersonaAnalyzer.analyze_personality_traits\<close>

text \<open>
  The tail shared by the four axis functions: \<open>total = b + a\<close>, 50 when \<open>total == 0\<close>,
  \<open>int((b / total) * 100)\<close> otherwise, where \<open>b\<close> counts the keywords of the pole at 100.
\<close>

definition axis_score :: "int \<Rightarrow> int \<Rightarrow> int" where
  "axis_score b_score a_score =
     (let total = b_score + a_score in
      if total = 0 then 50
      else int_of_float (float_mul_int (true_div b_score total) 100))"

definition extrovert_keywords :: "pystr list" where
  "extrovert_keywords =
     [S ''party'', S ''social'', S ''friends'', S ''meeting people'', S ''networking'']"

definition introvert_keywords :: "pystr list" where
  "introvert_keywords = [S ''alone'', S ''quiet'', S ''home'', S ''reading'', S ''solitude'']"

definition analyze_introversion_extroversion :: "pystr \<Rightarrow> int" where
  "analyze_introversion_extroversion text =
     (let extrovert_score = count_keywords text extrovert_keywords;
          introvert_score = count_keywords text introvert_keywords
      in axis_score extrovert_score introvert_score)"

definition intuition_keywords :: "pystr list" where
  "intuition_keywords = [S ''future'', S ''possibility'', S ''theory'', S ''concept'', S ''idea'']"

definition sensing_keywords :: "pystr list" where
  "sensing_keywords =
     [S ''practical'', S ''facts'', S ''details'', S ''experience'', S ''reality'']"

definition analyze_intuition_sensing :: "pystr \<Rightarrow> int" where
  "analyze_intuition_sensing text =
     (let intuition_score = count_keywords text intuition_keywords;
          sensing_score = count_keywords text sensing_keywords
      in axis_score sensing_score intuition_score)"

definition feeling_keywords :: "pystr list" where
  "feeling_keywords = [S ''feel'', S ''emotion'', S ''heart'', S ''care'', S ''empathy'']"

definition thinking_keywords :: "pystr list" where
  "thinking_keywords =
     [S ''logic'', S ''rational'', S ''analyze'', S ''objective'', S ''reason'']"

definition analyze_feeling_thinking :: "pystr \<Rightarrow> int" where
  "analyze_feeling_thinking text =
     (let feeling_score = count_keywords text feeling_keywords;
          thinking_score = count_keywords text thinking_keywords
      in axis_score thinking_score feeling_score)"

definition perceiving_keywords :: "pystr list" where
  "perceiving_keywords =
     [S ''flexible'', S ''spontaneous'', S ''adapt'', S ''open'', S ''explore'']"

definition judging_keywords :: "pystr list" where
  "judging_keywords =
     [S ''plan'', S ''organize'', S ''schedule'', S ''structure'', S ''decide'']"

definition analyze_perceiving_judging :: "pystr \<Rightarrow> int" where
  "analyze_perceiving_judging text =
     (let perceiving_score = count_keywords text perceiving_keywords;
          judging_score = count_keywords text judging_keywords
      in axis_score judging_score perceiving_score)"

record personality =
  introvert_extrovert :: int
  intuition_sensing :: int
  feeling_thinking :: int
  perceiving_judging :: int
  characteristics :: "pystr list"

text \<open>Each post is lower-cased on its own here, before the join.\<close>

definition personality_text :: "post list \<Rightarrow> comment list \<Rightarrow> pystr" where
  "personality_text posts comments =
     join (S '' '')
       (map (\<lambda>p. lower (title p @ S '' '' @ selftext p)) posts @
        map (\<lambda>c. lower (body c)) comments)"

definition analyze_characteristics :: "pystr \<Rightarrow> pystr list" where
  "analyze_characteristics combined_text =
     (if 5 < count_keywords combined_text
          [S ''help'', S ''advice'', S ''suggest'', S ''recommend'', S ''try this'']
      then [S ''Helpful''] else []) @
     (if 10 < count_keywords combined_text
          [S ''awesome'', S ''amazing'', S ''love'', S ''excited'', S ''!'']
      then [S ''Enthusiastic''] else []) @
     (if 3 < count_keywords combined_text
          [S ''analysis'', S ''data'', S ''research'', S ''study'', S ''statistics'']
      then [S ''Analytical''] else []) @
     (if 3 < count_keywords combined_text
          [S ''creative'', S ''art'', S ''design'', S ''music'', S ''write'', S ''draw'']
      then [S ''Creative''] else [])"

definition analyze_personality_traits :: "post list \<Rightarrow> comment list \<Rightarrow> personality" where
  "analyze_personality_traits posts comments =
     (let combined_text = personality_text posts comments in
      \<lparr>introvert_extrovert = analyze_introversion_extroversion combined_text,
       intuition_sensing = analyze_intuition_sensing combined_text,
       feeling_thinking = analyze_feeling_thinking combined_text,
       perceiving_judging = analyze_perceiving_judging combined_text,
       characteristics = analyze_characteristics combined_text\<rparr>)"

section \<open>Dictionaries\<close>

text \<open>
  A Python dictionary keeps its keys in insertion order: \<open>d[k] = v\<close> replaces the value of
  a key already there, in place, and appends a new key at the end.
\<close>

fun dict_set :: "('k \<times> 'v) list \<Rightarrow> 'k \<Rightarrow> 'v \<Rightarrow> ('k \<times> 'v) list" where
  "dict_set [] k v = [(k, v)]"
| "dict_set ((k', v') # rest) k v =
     (if k' = k then (k, v) # rest else (k', v') # dict_set rest k v)"

text \<open>\<open>d.get(k, default)\<close>\<close>

fun dict_get :: "('k \<times> 'v) list \<Rightarrow> 'k \<Rightarrow> 'v \<Rightarrow> 'v" where
  "dict_get [] k dflt = dflt"
| "dict_get ((k', v') # rest) k dflt = (if k' = k then v' else dict_get rest k dflt)"

section \<open>PersonaAnalyzer.analyze_motivations\<close>

text \<open>The text of the motivation, frustration and goal analyses.\<close>

definition content_text :: "post list \<Rightarrow> comment list \<Rightarrow> pystr" where
  "content_text posts comments =
     lower (join (S '' '')
       (map (\<lambda>p. title p @ S '' '' @ selftext p) posts @ map body comments))"

definition motivation_keywords :: "(pystr \<times> pystr list) list" where
  "motivation_keywords =
    [(S ''convenience'', [S ''easy'', S ''quick'', S ''fast'', S ''convenient'', S ''simple'']),
     (S ''wellness'', [S ''health'', S ''fitness'', S ''exercise'', S ''diet'', S ''wellness'']),
     (S ''speed'', [S ''fast'', S ''quick'', S ''rapid'', S ''immediate'', S ''instant'']),
     (S ''preferences'', [S ''prefer'', S ''like'', S ''favorite'', S ''choice'', S ''option'']),
     (S ''comfort'', [S ''comfort'', S ''cozy'', S ''relaxing'', S ''peaceful'', S ''calm'']),
     (S ''dietary_needs'',
        [S ''diet'', S ''nutrition'', S ''healthy'', S ''organic'', S ''vegan''])]"

text \<open>
  The loop \<open>for category, keywords in motivation_keywords.items()\<close>, started from the empty
  dictionary.
\<close>

fun motivations_loop ::
  "(pystr \<times> pystr list) list \<Rightarrow> pystr \<Rightarrow> (pystr \<times> int) list \<Rightarrow> (pystr \<times> int) list" where
  "motivations_loop [] combined_text motivations = motivations"
| "motivations_loop ((category, keywords) # rest) combined_text motivations =
     (let score = count_keywords combined_text keywords in
      motivations_loop rest combined_text (dict_set motivations category (min (score * 10) 100)))"

definition analyze_motivations :: "post list \<Rightarrow> comment list \<Rightarrow> (pystr \<times> int) list" where
  "analyze_motivations posts comments =
     motivations_loop motivation_keywords (content_text posts comments) []"

section \<open>PersonaAnalyzer.analyze_behavior_and_habits\<close>

text \<open>\<open>str(n)\<close> for an integer: its decimal digits, with a minus sign when negative.\<close>

fun str_nat :: "nat \<Rightarrow> pystr" where
  "str_nat n = (if n < 10 then [48 + n] else str_nat (n div 10) @ [48 + n mod 10])"

declare str_nat.simps [simp del]

definition str_int :: "int \<Rightarrow> pystr" where
  "str_int i = (if i < 0 then 45 # str_nat (nat (- i)) else str_nat (nat i))"

text \<open>
  The two counting loops: \<open>if subreddit: counts[subreddit] = counts.get(subreddit, 0) + 1\<close>,
  over the subreddit of each post, then of each comment. The empty string is falsy.
\<close>

fun count_subreddits :: "pystr list \<Rightarrow> (pystr \<times> int) list \<Rightarrow> (pystr \<times> int) list" where
  "count_subreddits [] subreddit_counts = subreddit_counts"
| "count_subreddits (subreddit # rest) subreddit_counts =
     (if subreddit \<noteq> []
      then count_subreddits rest
             (dict_set subreddit_counts subreddit (dict_get subreddit_counts subreddit 0 + 1))
      else count_subreddits rest subreddit_counts)"

definition subreddit_counts :: "post list \<Rightarrow> comment list \<Rightarrow> (pystr \<times> int) list" where
  "subreddit_counts posts comments =
     count_subreddits (map c_subreddit comments) (count_subreddits (map p_subreddit posts) [])"

text \<open>
  \<open>sorted(counts.items(), key=lambda x: x[1], reverse=True)[:3]\<close>. Python's sort is stable,
  also with \<open>reverse=True\<close>: items with equal counts keep the order of the dictionary. It is
  the stable sort by the negated count.
\<close>

definition top_subreddits :: "post list \<Rightarrow> comment list \<Rightarrow> (pystr \<times> int) list" where
  "top_subreddits posts comments =
     take 3 (sort_key (\<lambda>x. - snd x) (subreddit_counts posts comments))"

definition behavior_desc :: "pystr \<times> int \<Rightarrow> pystr" where
  "behavior_desc x =
     S ''Active in r/'' @ fst x @ S '' community with '' @ str_int (snd x) @ S '' posts/comments''"

definition posting_pattern :: "post list \<Rightarrow> pystr list" where
  "posting_pattern posts =
     (if 20 < length posts then [S ''Frequent poster - shares content regularly'']
      else if 5 < length posts then [S ''Occasional poster - shares content sometimes'']
      else [])"

definition commenting_pattern :: "comment list \<Rightarrow> pystr list" where
  "commenting_pattern comments =
     (if 50 < length comments
      then [S ''Very active commenter - engages frequently in discussions'']
      else if 20 < length comments
      then [S ''Regular commenter - participates in community discussions'']
      else [])"

definition analyze_behavior_and_habits :: "post list \<Rightarrow> comment list \<Rightarrow> pystr list" where
  "analyze_behavior_and_habits posts comments =
     map behavior_desc (top_subreddits posts comments) @
     posting_pattern posts @ commenting_pattern comments"

section \<open>PersonaAnalyzer.analyze_frustrations and analyze_goals_and_needs\<close>

text \<open>
  \<open>list(set(xs))\<close>. CPython iterates a set in the order of its hash table, and the hash of
  a \<open>str\<close> is salted with a seed drawn when the interpreter starts (unless PYTHONHASHSEED
  fixes it), so the order belongs to the run, not to the program. The run supplies it as a
  rank on strings; whatever the rank, the list holds each element of the set once.
\<close>

definition list_of_set :: "(pystr \<Rightarrow> nat) \<Rightarrow> pystr list \<Rightarrow> pystr list" where
  "list_of_set rank xs = sort_key rank (remdups xs)"

text \<open>
  The loop over the categories: the inner loop appends the sentence of the category at the
  first keyword found in the text and breaks, so a category adds its sentence at most once.
  \<open>sentence\<close> is the \<open>if\<close>/\<open>elif\<close> chain on the category name.
\<close>

fun category_loop ::
  "(pystr \<Rightarrow> pystr list) \<Rightarrow> (pystr \<times> pystr list) list \<Rightarrow> pystr \<Rightarrow> pystr list" where
  "category_loop sentence [] combined_text = []"
| "category_loop sentence ((category, keywords) # rest) combined_text =
     (if any_in keywords combined_text then sentence category else []) @
     category_loop sentence rest combined_text"

definition frustration_patterns :: "(pystr \<times> pystr list) list" where
  "frustration_patterns =
    [(S ''technology'', [S ''slow'', S ''bug'', S ''crash'', S ''error'', S ''broken'']),
     (S ''time'', [S ''waste time'', S ''too long'', S ''waiting'', S ''delay'']),
     (S ''information'',
        [S ''confusing'', S ''unclear'', S ''hard to find'', S ''missing info'']),
     (S ''service'', [S ''poor service'', S ''unhelpful'', S ''rude'', S ''disappointing''])]"

definition frustration_sentence :: "pystr \<Rightarrow> pystr list" where
  "frustration_sentence category =
     (if category = S ''technology'' then [S ''Technology issues and software problems'']
      else if category = S ''time'' then [S ''Time-wasting processes and delays'']
      else if category = S ''information''
      then [S ''Lack of clear information or instructions'']
      else if category = S ''service'' then [S ''Poor customer service experiences'']
      else [])"

definition analyze_frustrations ::
  "(pystr \<Rightarrow> nat) \<Rightarrow> post list \<Rightarrow> comment list \<Rightarrow> pystr list" where
  "analyze_frustrations rank posts comments =
     list_of_set rank
       (category_loop frustration_sentence frustration_patterns (content_text posts comments))"

definition goal_keywords :: "(pystr \<times> pystr list) list" where
  "goal_keywords =
    [(S ''health'',
        [S ''lose weight'', S ''get fit'', S ''healthy lifestyle'', S ''exercise more'']),
     (S ''career'', [S ''promotion'', S ''new job'', S ''career growth'', S ''learn skills'']),
     (S ''financial'',
        [S ''save money'', S ''investment'', S ''financial freedom'', S ''budget'']),
     (S ''education'',
        [S ''learn'', S ''study'', S ''course'', S ''degree'', S ''certification'']),
     (S ''relationships'', [S ''meet people'', S ''dating'', S ''friends'', S ''social'']),
     (S ''lifestyle'', [S ''travel'', S ''hobby'', S ''experience'', S ''adventure''])]"

definition goal_sentence :: "pystr \<Rightarrow> pystr list" where
  "goal_sentence category =
     (if category = S ''health''
      then [S ''Maintain a healthy lifestyle and fitness routine'']
      else if category = S ''career''
      then [S ''Advance career and develop professional skills'']
      else if category = S ''financial''
      then [S ''Achieve financial stability and smart money management'']
      else if category = S ''education'' then [S ''Continue learning and skill development'']
      else if category = S ''relationships''
      then [S ''Build meaningful relationships and social connections'']
      else if category = S ''lifestyle''
      then [S ''Explore new experiences and maintain work-life balance'']
      else [])"

definition analyze_goals_and_needs ::
  "(pystr \<Rightarrow> nat) \<Rightarrow> post list \<Rightarrow> comment list \<Rightarrow> pystr list" where
  "analyze_goals_and_needs rank posts comments =
     list_of_set rank (category_loop goal_sentence goal_keywords (content_text posts comments))"

section \<open>PersonaAnalyzer.generate_persona\<close>

text \<open>
  What a run reads from outside the program: the clock, as the ISO text of
  \<open>datetime.now()\<close>, and the iteration order of string sets.
\<close>

record run_env =
  now_isoformat :: pystr
  set_rank :: "pystr \<Rightarrow> nat"

record persona =
  username :: pystr
  profile_url :: pystr
  analysis_date :: pystr
  total_posts :: nat
  total_comments :: nat
  demographics :: demographics
  personality :: personality
  motivations :: "(pystr \<times> int) list"
  behaviors :: "pystr list"
  frustrations :: "pystr list"
  goals :: "pystr list"
  raw_posts :: "post list"
  raw_comments :: "comment list"

definition generate_persona :: "run_env \<Rightarrow> pystr \<Rightarrow> post list \<Rightarrow> comment list \<Rightarrow> persona" where
  "generate_persona env name posts comments =
     \<lparr>username = name,
      profile_url = S ''https://www.reddit.com/user/'' @ name @ S ''/'',
      analysis_date = now_isoformat env,
      total_posts = length posts,
      total_comments = length comments,
      demographics = analyze_demographics posts comments,
      personality = analyze_personality_traits posts comments,
      motivations = analyze_motivations posts comments,
      behaviors = analyze_behavior_and_habits posts comments,
      frustrations = analyze_frustrations (set_rank env) posts comments,
      goals = analyze_goals_and_needs (set_rank env) posts comments,
      raw_posts = take 5 posts,
      raw_comments = take 10 comments\<rparr>"

section \<open>PersonaReportGenerator.generate_text_report\<close>

text \<open>\<open>s * k\<close> for a one-character string: empty when \<open>k \<le> 0\<close>.\<close>

definition times :: "nat \<Rightarrow> int \<Rightarrow> pystr" where
  "times c k = replicate (nat k) c"

text \<open>The glyphs of the bars and the bullet: U+2588, U+2591, U+2022.\<close>

definition FULL_BLOCK :: nat where "FULL_BLOCK = 9608"
definition LIGHT_SHADE :: nat where "LIGHT_SHADE = 9617"
definition BULLET :: nat where "BULLET = 8226"

text \<open>\<open>str.upper()\<close>, \<open>str.title()\<close> on the letters A to Z, as \<open>lower\<close> above.\<close>

definition is_upper :: "nat \<Rightarrow> bool" where "is_upper c = (65 \<le> c \<and> c \<le> 90)"
definition is_lower :: "nat \<Rightarrow> bool" where "is_lower c = (97 \<le> c \<and> c \<le> 122)"

definition upper_char :: "nat \<Rightarrow> nat" where
  "upper_char c = (if is_lower c then c - 32 else c)"

definition upper :: "pystr \<Rightarrow> pystr" where
  "upper s = map upper_char s"

fun title_from :: "bool \<Rightarrow> pystr \<Rightarrow> pystr" where
  "title_from previous_is_cased [] = []"
| "title_from previous_is_cased (c # cs) =
     (if is_upper c \<or> is_lower c
      then (if previous_is_cased then lower_char c else upper_char c) # title_from True cs
      else c # title_from False cs)"

definition title_case :: "pystr \<Rightarrow> pystr" where
  "title_case s = title_from False s"

text \<open>\<open>s.replace(a, b)\<close> for one-character \<open>a\<close> and \<open>b\<close>; \<open>f"{s:<15}"\<close>.\<close>

definition replace_char :: "nat \<Rightarrow> nat \<Rightarrow> pystr \<Rightarrow> pystr" where
  "replace_char a b s = map (\<lambda>c. if c = a then b else c) s"

definition ljust :: "nat \<Rightarrow> pystr \<Rightarrow> pystr" where
  "ljust width s = s @ replicate (width - length s) 32"

text \<open>\<open>text.split(sep)\<close> for a separator that is not empty.\<close>

fun split_from :: "pystr \<Rightarrow> pystr \<Rightarrow> pystr \<Rightarrow> pystr list" where
  "split_from sep [] piece = [rev piece]"
| "split_from sep (c # cs) piece =
     (if sep \<noteq> [] \<and> prefix sep (c # cs)
      then rev piece # split_from sep (drop (length sep) (c # cs)) []
      else split_from sep cs (c # piece))"

definition split :: "pystr \<Rightarrow> pystr \<Rightarrow> pystr list" where
  "split text sep = split_from sep text []"

definition header_lines :: "persona \<Rightarrow> pystr list" where
  "header_lines p =
     [times 61 80, S ''USER PERSONA: '' @ upper (username p), times 61 80, []]"

definition basic_lines :: "persona \<Rightarrow> pystr list" where
  "basic_lines p =
     (let demo = demographics p in
      [S ''BASIC INFORMATION'', times 45 40,
       S ''AGE:           '' @ age demo,
       S ''OCCUPATION:    '' @ occupation demo,
       S ''STATUS:        '' @ status demo,
       S ''LOCATION:      '' @ location demo,
       []])"

text \<open>
  One gauge: the left label with its padding, the filled glyph \<open>10 - score//10\<close> times,
  the track glyph \<open>score//10\<close> times, the right label with its leading space.
\<close>

definition gauge_line :: "pystr \<Rightarrow> int \<Rightarrow> pystr \<Rightarrow> pystr" where
  "gauge_line left_label score right_label =
     left_label @ times FULL_BLOCK (10 - score div 10) @ times LIGHT_SHADE (score div 10) @
     right_label"

definition personality_lines :: "persona \<Rightarrow> pystr list" where
  "personality_lines p =
     (let pers = personality p;
          intro_score = introvert_extrovert pers;
          intuition_score = intuition_sensing pers;
          feeling_score = feeling_thinking pers;
          perceiving_score = perceiving_judging pers
      in
      [S ''PERSONALITY TRAITS'', times 45 40,
       gauge_line (S ''INTROVERT '') intro_score (S '' EXTROVERT''),
       gauge_line (S ''INTUITION '') intuition_score (S '' SENSING''),
       gauge_line (S ''FEELING   '') feeling_score (S '' THINKING''),
       gauge_line (S ''PERCEIVING'') perceiving_score (S '' JUDGING''),
       []] @
      (if characteristics pers \<noteq> []
       then [S ''CHARACTERISTICS:''] @ map (\<lambda>char. BULLET # 32 # char) (characteristics pers) @ [[]]
       else []))"

definition motivation_line :: "pystr \<times> int \<Rightarrow> pystr list" where
  "motivation_line x =
     (let motivation = fst x; score = snd x in
      if 20 < score
      then let bar_length = score div 10;
               motivation_name = title_case (replace_char 95 32 motivation)
           in [ljust 15 motivation_name @ [32] @ times FULL_BLOCK bar_length @
               times LIGHT_SHADE (10 - bar_length) @ S '' ('' @ str_int score @ S ''%)'']
      else [])"

definition motivations_lines :: "persona \<Rightarrow> pystr list" where
  "motivations_lines p =
     [S ''MOTIVATIONS'', times 45 40] @ concat (map motivation_line (motivations p)) @ [[]]"

text \<open>
  \<open>behavior.split('r/')[1].split(' ')[0]\<close>, reached only when \<open>'r/' in behavior\<close>, where
  the first split has two pieces at least; a split is never empty.
\<close>

definition behavior_lines_of :: "pystr \<Rightarrow> pystr list" where
  "behavior_lines_of behavior =
     [BULLET # 32 # behavior] @
     (if contains behavior (S ''r/'')
      then let subreddit = hd (split (split behavior (S ''r/'') ! 1) (S '' ''))
           in [S ''  Citation: Active in r/'' @ subreddit @ S '' subreddit'']
      else [])"

definition behaviour_lines :: "persona \<Rightarrow> pystr list" where
  "behaviour_lines p =
     [S ''BEHAVIOUR & HABITS'', times 45 40] @ concat (map behavior_lines_of (behaviors p)) @ [[]]"

definition frustration_lines :: "persona \<Rightarrow> pystr list" where
  "frustration_lines p =
     [S ''FRUSTRATIONS'', times 45 40] @
     concat (map (\<lambda>frustration.
        [BULLET # 32 # frustration] @
        (case raw_posts p of [] \<Rightarrow> []
         | first_post # _ \<Rightarrow> [S ''  Citation: Post ID '' @ p_id first_post]))
       (frustrations p)) @ [[]]"

definition goal_lines :: "persona \<Rightarrow> pystr list" where
  "goal_lines p =
     [S ''GOALS & NEEDS'', times 45 40] @
     concat (map (\<lambda>goal.
        [BULLET # 32 # goal] @
        (case raw_comments p of [] \<Rightarrow> []
         | first_comment # _ \<Rightarrow> [S ''  Citation: Comment ID '' @ c_id first_comment]))
       (goals p)) @ [[]]"

text \<open>
  The two search loops of the quote section. Each returns the pair \<open>(quote, citation)\<close> set
  at the first item that passes the test, where it breaks, and the initial pair of empty
  strings when no item passes. The tests are \<open>post['selftext'] and len(post['selftext']) > 50\<close>
  and \<open>comment['body'] and len(comment['body']) > 30\<close>.
\<close>

definition qualifying_post :: "post \<Rightarrow> bool" where
  "qualifying_post post = (selftext post \<noteq> [] \<and> 50 < length (selftext post))"

definition qualifying_comment :: "comment \<Rightarrow> bool" where
  "qualifying_comment comment = (body comment \<noteq> [] \<and> 30 < length (body comment))"

fun post_quote :: "post list \<Rightarrow> pystr \<times> pystr" where
  "post_quote [] = ([], [])"
| "post_quote (post # rest) =
     (if qualifying_post post
      then (take 150 (selftext post) @ S ''...'',
            S ''Post: '' @ title post @ S '' (ID: '' @ p_id post @ S '')'')
      else post_quote rest)"

fun comment_quote :: "comment list \<Rightarrow> pystr \<times> pystr" where
  "comment_quote [] = ([], [])"
| "comment_quote (comment # rest) =
     (if qualifying_comment comment
      then (take 150 (body comment) @ S ''...'', S ''Comment ID: '' @ c_id comment)
      else comment_quote rest)"

definition quote_lines :: "persona \<Rightarrow> pystr list" where
  "quote_lines p =
     (if raw_posts p \<noteq> [] \<or> raw_comments p \<noteq> []
      then [S ''REPRESENTATIVE QUOTE'', times 45 40] @
        (let found = post_quote (raw_posts p);
             found = (if fst found = [] then comment_quote (raw_comments p) else found)
         in if fst found \<noteq> []
            then [[34] @ fst found @ [34], S ''Source: '' @ snd found]
            else [])
      else [])"

text \<open>\<open>now_text\<close> is \<open>datetime.now().strftime('%Y-%m-%d %H:%M:%S')\<close>, read from the clock.\<close>

definition footer_lines :: "pystr \<Rightarrow> persona \<Rightarrow> pystr list" where
  "footer_lines now_text p =
     [[], times 61 80,
      S ''Analysis completed on '' @ now_text,
      S ''Based on '' @ str_int (int (total_posts p)) @ S '' posts and '' @
        str_int (int (total_comments p)) @ S '' comments'',
      times 61 80]"

text \<open>The list \<open>report\<close> at the end of the function, and the text returned.\<close>

definition report_lines :: "pystr \<Rightarrow> persona \<Rightarrow> pystr list" where
  "report_lines now_text p =
     header_lines p @ basic_lines p @ personality_lines p @ motivations_lines p @
     behaviour_lines p @ frustration_lines p @ goal_lines p @ quote_lines p @
     footer_lines now_text p"

definition generate_text_report :: "pystr \<Rightarrow> persona \<Rightarrow> pystr" where
  "generate_text_report now_text p = join [10] (report_lines now_text p)"

section \<open>Example inputs\<close>

definition example_post :: "string \<Rightarrow> string \<Rightarrow> string \<Rightarrow> string \<Rightarrow> post" where
  "example_post ident t b s =
     \<lparr>p_id = S ident, title = S t, selftext = S b, p_subreddit = S s, p_score = 1,
      p_created_utc = 0, p_url = S ''https://reddit.com'', num_comments = 0\<rparr>"

definition example_comment :: "string \<Rightarrow> string \<Rightarrow> string \<Rightarrow> comment" where
  "example_comment ident b s =
     \<lparr>c_id = S ident, body = S b, c_subreddit = S s, c_score = 1, c_created_utc = 0,
      c_url = S ''https://reddit.com'', link_title = []\<rparr>"

definition example_env :: run_env where
  "example_env = \<lparr>now_isoformat = S ''2025-01-01T00:00:00'', set_rank = (\<lambda>s. 0)\<rparr>"

definition float_case_comments :: "comment list" where
  "float_case_comments =
     replicate 29 (example_comment ''c1'' ''party'' ''python'') @
     replicate 21 (example_comment ''c2'' ''home'' ''python'')"

definition example_posts :: "post list" where
  "example_posts =
     [example_post ''p1'' ''Dinner'' ''An easy and EASY recipe, easy to cook'' ''python'']"

definition example_comments :: "comment list" where
  "example_comments =
     [example_comment ''c1''
        ''vegan vegan vegan vegan vegan vegan vegan vegan vegan vegan vegan vegan vegan vegan vegan''
        ''golang'']"

definition gauge_persona :: persona where
  "gauge_persona =
     (generate_persona example_env (S ''bob'') [] [])
       \<lparr>personality :=
          \<lparr>introvert_extrovert = 30, intuition_sensing = 100, feeling_thinking = 50,
           perceiving_judging = 0, characteristics = []\<rparr>\<rparr>"

definition short_post_persona :: persona where
  "short_post_persona =
     generate_persona example_env (S ''bob'')
       [example_post ''p1'' ''Hello'' ''a short text'' ''python''] []"

definition long_post :: post where
  "long_post =
     example_post ''p7'' ''Moving''
       ''We moved to another city last month and everything still feels new.'' ''python''"

definition long_post_persona :: persona where
  "long_post_persona =
     generate_persona example_env (S ''bob'')
       [example_post ''p1'' ''Hello'' ''a short text'' ''python'', long_post] []"

definition later_env :: run_env where
  "later_env = \<lparr>now_isoformat = S ''2025-06-30T12:00:00'', set_rank = (\<lambda>s. 0)\<rparr>"

definition length_rank_env :: run_env where
  "length_rank_env = \<lparr>now_isoformat = S ''2025-01-01T00:00:00'', set_rank = length\<rparr>"

definition frustrated_posts :: "post list" where
  "frustrated_posts =
     [example_post ''p1'' ''App crash'' ''still waiting for a fix'' ''python'']"

definition ranking_posts :: "post list" where
  "ranking_posts =
     [example_post ''p1'' ''a'' ''b'' ''python'', example_post ''p2'' ''a'' ''b'' ''golang'',
      example_post ''p3'' ''a'' ''b'' ''rust'', example_post ''p4'' ''a'' ''b'' ''golang'',
      example_post ''p5'' ''a'' ''b'' ''python'']"

definition ranking_comments :: "comment list" where
  "ranking_comments =
     replicate 3 (example_comment ''c1'' ''b'' ''golang'') @
     replicate 3 (example_comment ''c2'' ''b'' ''python'') @
     [example_comment ''c3'' ''b'' ''rust'']"

definition busy_posts :: "post list" where
  "busy_posts =
     replicate 8 (example_post ''p1'' ''a'' ''b'' ''python'') @
     replicate 7 (example_post ''p2'' ''a'' ''b'' ''golang'') @
     replicate 6 (example_post ''p3'' ''a'' ''b'' ''rust'')"

definition busy_comments :: "comment list" where
  "busy_comments = replicate 51 (example_comment ''c1'' ''b'' ''haskell'')"

definition unnamed_posts :: "post list" where
  "unnamed_posts =
     [example_post ''p1'' ''a'' ''b'' [], example_post ''p2'' ''a'' ''b'' ''python'']"

section \<open>Notions used in the statements\<close>

text \<open>The ten glyphs of a gauge as the report lays them out: filled ones, then track ones.\<close>

definition bar :: "int \<Rightarrow> pystr" where
  "bar score = replicate (10 - nat (score div 10)) FULL_BLOCK @
               replicate (nat (score div 10)) LIGHT_SHADE"

text \<open>
  The subreddit names that the two counting loops see, in the order they see them: those of
  the posts, then those of the comments, the empty ones skipped.
\<close>

definition subreddit_mentions :: "post list \<Rightarrow> comment list \<Rightarrow> pystr list" where
  "subreddit_mentions posts comments =
     filter (\<lambda>s. s \<noteq> []) (map p_subreddit posts @ map c_subreddit comments)"

text \<open>The elements of a list in the order of their first occurrence, each once.\<close>

fun first_seen :: "'a list \<Rightarrow> 'a list" where
  "first_seen [] = []"
| "first_seen (x # xs) = x # removeAll x (first_seen xs)"

text \<open>The position of the first occurrence of \<open>x\<close> in \<open>xs\<close> (the length when there is none).\<close>

definition first_index :: "'a list \<Rightarrow> 'a \<Rightarrow> nat" where
  "first_index xs x = length (takeWhile (\<lambda>y. y \<noteq> x) xs)"

text \<open>
  The ranking of the subreddits: a higher count comes first, and of two equal counts the
  subreddit met first comes first.
\<close>

definition ranks_before :: "pystr list \<Rightarrow> pystr \<times> int \<Rightarrow> pystr \<times> int \<Rightarrow> bool" where
  "ranks_before subs a b =
     (snd b < snd a \<or> (snd a = snd b \<and> first_index subs (fst a) < first_index subs (fst b)))"

text \<open>The three kinds of behavior strings.\<close>

definition is_subreddit_activity :: "pystr \<Rightarrow> bool" where
  "is_subreddit_activity b = prefix (S ''Active in r/'') b"

definition is_posting_frequency :: "pystr \<Rightarrow> bool" where
  "is_posting_frequency b =
     (b = S ''Frequent poster - shares content regularly'' \<or>
      b = S ''Occasional poster - shares content sometimes'')"

definition is_commenting_frequency :: "pystr \<Rightarrow> bool" where
  "is_commenting_frequency b =
     (b = S ''Very active commenter - engages frequently in discussions'' \<or>
      b = S ''Regular commenter - participates in community discussions'')"

text \<open>
  The dictionary that the counting loops are to build from the names \<open>seen\<close>: each name once,
  in the order of first occurrence, with the number of its occurrences.
\<close>

definition counted :: "pystr list \<Rightarrow> (pystr \<times> int) list" where
  "counted seen = map (\<lambda>s. (s, int (count_list seen s))) (first_seen seen)"

section \<open>Empty input\<close>

lemma S_Nil_iff [simp]: "(S s = []) = (s = [])" "([] = S s) = (s = [])"
  by (auto simp: S_def)

lemma count_keywords_Nil: "\<forall>k \<in> set ks. k \<noteq> [] \<Longrightarrow> count_keywords [] ks = 0"
  by (induction ks) (auto simp: count_keywords_def count_str_def)

lemma first_indicator_Nil:
  "\<forall>x \<in> set tbl. fst x \<noteq> [] \<Longrightarrow> first_indicator tbl [] = S ''Unknown''"
  by (induction tbl) auto

lemma any_in_Nil: "\<forall>k \<in> set ks. k \<noteq> [] \<Longrightarrow> \<not> any_in ks []"
  by (induction ks) (auto simp: any_in_def)

lemma category_loop_Nil:
  "\<forall>x \<in> set tbl. \<forall>k \<in> set (snd x). k \<noteq> [] \<Longrightarrow> category_loop f tbl [] = []"
  by (induction tbl) (auto simp: any_in_Nil)

lemma demographics_empty:
  "analyze_demographics [] [] =
     \<lparr>age = S ''Unknown'', occupation = S ''Unknown'', status = S ''Unknown'',
      location = S ''Unknown''\<rparr>"
  by (simp add: analyze_demographics_def demographics_text_def lower_def relationship_status_def
        first_indicator_Nil any_in_Nil age_indicators_def occupation_keywords_def
        location_indicators_def)

lemma personality_empty:
  "analyze_personality_traits [] [] =
     \<lparr>introvert_extrovert = 50, intuition_sensing = 50, feeling_thinking = 50,
      perceiving_judging = 50, characteristics = []\<rparr>"
  by (simp add: analyze_personality_traits_def personality_text_def
        analyze_introversion_extroversion_def analyze_intuition_sensing_def
        analyze_feeling_thinking_def analyze_perceiving_judging_def
        analyze_characteristics_def count_keywords_Nil axis_score_def
        extrovert_keywords_def introvert_keywords_def intuition_keywords_def
        sensing_keywords_def feeling_keywords_def thinking_keywords_def
        perceiving_keywords_def judging_keywords_def)

lemma behaviors_empty: "analyze_behavior_and_habits [] [] = []"
  by (simp add: analyze_behavior_and_habits_def top_subreddits_def subreddit_counts_def
        posting_pattern_def commenting_pattern_def)

lemma frustrations_empty: "analyze_frustrations rank [] [] = []"
proof -
  have "category_loop frustration_sentence frustration_patterns [] = []"
    by (rule category_loop_Nil) (simp add: frustration_patterns_def)
  then show ?thesis
    by (simp add: analyze_frustrations_def content_text_def lower_def list_of_set_def)
qed

lemma goals_empty: "analyze_goals_and_needs rank [] [] = []"
proof -
  have "category_loop goal_sentence goal_keywords [] = []"
    by (rule category_loop_Nil) (simp add: goal_keywords_def)
  then show ?thesis
    by (simp add: analyze_goals_and_needs_def content_text_def lower_def list_of_set_def)
qed

text \<open>
  C4. With no posts and no comments the analyzer returns the neutral persona: the four
  demographic fields are the literal Unknown, the four axis scores are 50, and the
  characteristics, behaviors, frustrations and goals are empty.
\<close>

theorem empty_input_neutral_persona:
  "(let p = generate_persona env name [] [] in
      age (demographics p) = S ''Unknown'' \<and>
      occupation (demographics p) = S ''Unknown'' \<and>
      status (demographics p) = S ''Unknown'' \<and>
      location (demographics p) = S ''Unknown'' \<and>
      introvert_extrovert (personality p) = 50 \<and>
      intuition_sensing (personality p) = 50 \<and>
      feeling_thinking (personality p) = 50 \<and>
      perceiving_judging (personality p) = 50 \<and>
      characteristics (personality p) = [] \<and>
      behaviors p = [] \<and> frustrations p = [] \<and> goals p = [])"
  by (simp add: generate_persona_def demographics_empty personality_empty behaviors_empty
        frustrations_empty goals_empty)

section \<open>Score ranges\<close>

lemma round_div_even_le:
  assumes "0 < d" "n \<le> N * d"
  shows "round_div_even n d \<le> N"
proof -
  have q: "n div d \<le> N"
    using div_le_mono[OF assms(2), of d] assms(1) by simp
  show ?thesis
  proof (cases "n div d < N")
    case True
    then show ?thesis by (simp add: round_div_even_def Let_def)
  next
    case False
    with q have e: "n div d = N" by simp
    have "N * d \<le> n" using div_times_less_eq_dividend[of n d] e by simp
    with assms have "n = N * d" by simp
    then have "n mod d = 0" by simp
    with e assms show ?thesis by (simp add: round_div_even_def Let_def)
  qed
qed

lemma binade_le:
  assumes "0 < d" "0 < n" "n \<le> 128 * d"
  shows "binade n d \<le> 7"
proof -
  have "floorlog 2 n \<le> floorlog 2 (d * 2 ^ 7)"
    using assms by (intro floorlog_mono) simp
  also have "\<dots> = floorlog 2 d + 7"
    using assms by (subst floorlog_power) simp_all
  finally show ?thesis by (simp add: binade_def Let_def)
qed

lemma round_to_double_le:
  assumes "0 < d" "n \<le> K * d" "K \<le> 128"
  shows "snd (round_to_double n d) \<le> 0 \<and>
         fst (round_to_double n d) \<le> K * 2 ^ nat (- snd (round_to_double n d))"
proof (cases "n = 0")
  case True
  then show ?thesis by (simp add: round_to_double_def)
next
  case False
  then have n: "0 < n" by simp
  have "n \<le> 128 * d" using assms by (meson le_trans mult_le_mono1)
  then have b: "binade n d \<le> 7" using assms n by (intro binade_le)
  define e where "e = max (binade n d - 52) (- 1074)"
  have e: "e < 0" using b by (simp add: e_def)
  have r: "round_to_double n d = (round_div_even (n * 2 ^ nat (- e)) d, e)"
    using False e by (simp add: round_to_double_def e_def Let_def)
  have "n * 2 ^ nat (- e) \<le> (K * 2 ^ nat (- e)) * d"
    using assms(2) by (simp add: mult.assoc mult.left_commute[of _ d] mult.commute[of _ d])
  then have "round_div_even (n * 2 ^ nat (- e)) d \<le> K * 2 ^ nat (- e)"
    using assms(1) by (intro round_div_even_le)
  with e show ?thesis by (simp add: r)
qed

lemma int_of_float_le:
  assumes "snd x \<le> 0" "fst x \<le> K * 2 ^ nat (- snd x)"
  shows "int_of_float x \<le> int K"
proof (cases "snd x = 0")
  case True
  with assms show ?thesis by (simp add: int_of_float_def)
next
  case False
  with assms have neg: "snd x < 0" by simp
  have "fst x div 2 ^ nat (- snd x) \<le> K"
    using div_le_mono[OF assms(2), of "2 ^ nat (- snd x)"] by simp
  with neg show ?thesis by (simp add: int_of_float_def)
qed

lemma int_of_float_nonneg: "0 \<le> int_of_float x"
  by (simp add: int_of_float_def)

lemma axis_score_bounds:
  assumes "0 \<le> b" "0 \<le> a"
  shows "0 \<le> axis_score b a \<and> axis_score b a \<le> 100"
proof (cases "b + a = 0")
  case True
  then show ?thesis by (simp add: axis_score_def)
next
  case False
  with assms have pos: "0 < b + a" by simp
  define x where "x = true_div b (b + a)"
  have "nat b \<le> 1 * nat (b + a)" using assms by simp
  then have x: "snd x \<le> 0 \<and> fst x \<le> 1 * 2 ^ nat (- snd x)"
    unfolding x_def true_div_def using pos by (intro round_to_double_le) simp_all
  define y where "y = float_mul_int x 100"
  have y: "snd y \<le> 0 \<and> fst y \<le> 100 * 2 ^ nat (- snd y)"
  proof (cases "snd x = 0")
    case True
    with x have le: "fst x * nat 100 * 2 ^ nat (snd x) \<le> 100 * 1" by simp
    have "y = round_to_double (fst x * nat 100 * 2 ^ nat (snd x)) 1"
      using True by (simp add: y_def float_mul_int_def)
    then show ?thesis
      using round_to_double_le[OF _ le] by simp
  next
    case False
    with x have neg: "snd x < 0" by simp
    have le: "fst x * nat 100 \<le> 100 * 2 ^ nat (- snd x)" using x by simp
    have "y = round_to_double (fst x * nat 100) (2 ^ nat (- snd x))"
      using neg by (simp add: y_def float_mul_int_def)
    then show ?thesis
      using round_to_double_le[OF _ le] by simp
  qed
  have "int_of_float y \<le> int 100" using y by (intro int_of_float_le) simp_all
  then show ?thesis
    using False int_of_float_nonneg[of y] by (simp add: axis_score_def x_def y_def Let_def)
qed

lemma count_keywords_nonneg: "0 \<le> count_keywords text keywords"
  by (simp add: count_keywords_def)

lemma personality_axes_bounds:
  "0 \<le> introvert_extrovert (analyze_personality_traits posts comments) \<and>
   introvert_extrovert (analyze_personality_traits posts comments) \<le> 100 \<and>
   0 \<le> intuition_sensing (analyze_personality_traits posts comments) \<and>
   intuition_sensing (analyze_personality_traits posts comments) \<le> 100 \<and>
   0 \<le> feeling_thinking (analyze_personality_traits posts comments) \<and>
   feeling_thinking (analyze_personality_traits posts comments) \<le> 100 \<and>
   0 \<le> perceiving_judging (analyze_personality_traits posts comments) \<and>
   perceiving_judging (analyze_personality_traits posts comments) \<le> 100"
  by (simp add: analyze_personality_traits_def Let_def analyze_introversion_extroversion_def
        analyze_intuition_sensing_def analyze_feeling_thinking_def
        analyze_perceiving_judging_def axis_score_bounds count_keywords_nonneg)

lemma dict_set_subset: "set (dict_set m k v) \<subseteq> insert (k, v) (set m)"
  by (induction m) (auto split: if_splits)

lemma motivations_loop_bounds:
  "\<forall>x \<in> set acc. 0 \<le> snd x \<and> snd x \<le> 100 \<Longrightarrow>
   \<forall>x \<in> set (motivations_loop tbl text acc). 0 \<le> snd x \<and> snd x \<le> (100::int)"
proof (induction tbl arbitrary: acc)
  case Nil
  then show ?case by simp
next
  case (Cons entry tbl)
  obtain category kws where entry: "entry = (category, kws)" by (cases entry)
  define v where "v = min (count_keywords text kws * 10) 100"
  have v: "0 \<le> v \<and> v \<le> 100" using count_keywords_nonneg[of _ kws] by (simp add: v_def)
  have "\<forall>x \<in> set (dict_set acc category v). 0 \<le> snd x \<and> snd x \<le> 100"
    using Cons.prems v dict_set_subset[of acc category v] by auto
  then show ?case
    using Cons.IH[of "dict_set acc category v"] by (simp add: entry v_def Let_def)
qed

text \<open>
  C8. For all posts and comments, each of the four personality axis scores and each
  motivation score of the persona lies between 0 and 100.
\<close>

theorem scores_within_0_100:
  "(let p = generate_persona env name posts comments in
      0 \<le> introvert_extrovert (personality p) \<and> introvert_extrovert (personality p) \<le> 100 \<and>
      0 \<le> intuition_sensing (personality p) \<and> intuition_sensing (personality p) \<le> 100 \<and>
      0 \<le> feeling_thinking (personality p) \<and> feeling_thinking (personality p) \<le> 100 \<and>
      0 \<le> perceiving_judging (personality p) \<and> perceiving_judging (personality p) \<le> 100 \<and>
      (\<forall>x \<in> set (motivations p). 0 \<le> snd x \<and> snd x \<le> 100))"
proof -
  have "\<forall>x \<in> set (analyze_motivations posts comments). 0 \<le> snd x \<and> snd x \<le> 100"
    unfolding analyze_motivations_def by (rule motivations_loop_bounds) simp
  then show ?thesis
    using personality_axes_bounds[of posts comments] by (simp add: generate_persona_def)
qed

theorem scores_within_0_100_witness:
  "(let p = generate_persona example_env (S ''bob'') example_posts example_comments in
      motivations p ! 0 \<in> set (motivations p) \<and>
      0 \<le> snd (motivations p ! 0) \<and> snd (motivations p ! 0) \<le> 100 \<and>
      0 \<le> introvert_extrovert (personality p) \<and> introvert_extrovert (personality p) \<le> 100)"
proof -
  let ?p = "generate_persona example_env (S ''bob'') example_posts example_comments"
  have mem: "motivations ?p ! 0 \<in> set (motivations ?p)"
    by code_simp
  show ?thesis
    using scores_within_0_100[of example_env "S ''bob''" example_posts example_comments] mem
    unfolding Let_def by blast
qed

section \<open>The axis score and the exact percentage\<close>

text \<open>
  The two float operations on 29 and 50: the quotient is the double just below 0.58, and
  its product with 100 the double just below 58.
\<close>

lemma quotient_29_50:
  "true_div 29 50 = (5224175567749775, - 53)"
  "float_mul_int (true_div 29 50) 100 = (8162774324609023, - 47)"
  "int_of_float (float_mul_int (true_div 29 50) 100) = 57"
  by code_simp+

lemma quotient_29_50_below: "double_val (true_div 29 50) < 29 / 50"
  by (simp add: quotient_29_50(1) double_val_def)

lemma product_29_50_below: "double_val (float_mul_int (true_div 29 50) 100) < 58"
  by (simp add: quotient_29_50(2) double_val_def)

text \<open>
  C3. The axis score is meant to be the share of the pole-B keywords among all keyword
  occurrences, times 100, rounded toward zero. The code truncates the float product instead:
  with 29 extrovert and 21 introvert occurrences the quotient 0.58 is a double just below
  0.58, its product with 100 is the double just below 58, and the score is 57, while the
  exact percentage 2900 / 50 is 58.
\<close>

theorem float_product_truncated:
  "count_keywords (personality_text [] float_case_comments) extrovert_keywords = 29 \<and>
   count_keywords (personality_text [] float_case_comments) introvert_keywords = 21 \<and>
   introvert_extrovert (analyze_personality_traits [] float_case_comments) = 57 \<and>
   (29 * 100) div (29 + 21) = (58::int)"
proof -
  have a: "count_keywords (personality_text [] float_case_comments) extrovert_keywords = 29"
    by code_simp
  have b: "count_keywords (personality_text [] float_case_comments) introvert_keywords = 21"
    by code_simp
  have c: "introvert_extrovert (analyze_personality_traits [] float_case_comments) = 57"
    by code_simp
  have d: "(29 * 100) div (29 + 21) = (58::int)" by simp
  from a b c d show ?thesis by (intro conjI)
qed

text \<open>The two cases of the axis score that the exact percentage and the code share.\<close>

lemma axis_score_zero_total: "axis_score 0 0 = 50"
  by (simp add: axis_score_def)

lemma party_alone_example:
  "analyze_introversion_extroversion (S ''party party alone party'') = 75"
  by code_simp

section \<open>Motivation scores\<close>

lemma dict_set_new: "k \<notin> fst ` set m \<Longrightarrow> dict_set m k v = m @ [(k, v)]"
  by (induction m) auto

lemma motivations_loop_distinct:
  "distinct (map fst tbl) \<Longrightarrow> fst ` set acc \<inter> fst ` set tbl = {} \<Longrightarrow>
   motivations_loop tbl t acc =
     acc @ map (\<lambda>x. (fst x, min (count_keywords t (snd x) * 10) 100)) tbl"
proof (induction tbl arbitrary: acc)
  case Nil
  then show ?case by simp
next
  case (Cons entry tbl)
  obtain category kws where entry: "entry = (category, kws)" by (cases entry)
  define v where "v = min (count_keywords t kws * 10) 100"
  have new: "dict_set acc category v = acc @ [(category, v)]"
    using Cons.prems(2) by (intro dict_set_new) (auto simp: entry)
  have "fst ` set (acc @ [(category, v)]) \<inter> fst ` set tbl = {}"
    using Cons.prems by (auto simp: entry)
  then have "motivations_loop tbl t (acc @ [(category, v)]) =
      (acc @ [(category, v)]) @ map (\<lambda>x. (fst x, min (count_keywords t (snd x) * 10) 100)) tbl"
    using Cons.prems(1) by (intro Cons.IH) simp
  then show ?case using new by (simp add: entry Let_def v_def)
qed

lemma motivation_keywords_distinct: "distinct (map fst motivation_keywords)"
  by (simp add: motivation_keywords_def S_def)

lemma analyze_motivations_eq:
  "analyze_motivations posts comments =
     map (\<lambda>x. (fst x, min (count_keywords (content_text posts comments) (snd x) * 10) 100))
       motivation_keywords"
  unfolding analyze_motivations_def
  using motivations_loop_distinct[OF motivation_keywords_distinct, of "[]"] by simp

text \<open>
  C6. Each of the six motivation categories scores the minimum of 100 and ten times the
  total number of occurrences of its keywords in the lower-cased combined text; three
  occurrences score 30, fifteen score 100.
\<close>

theorem motivation_scores:
  "(let t = content_text posts comments; m = analyze_motivations posts comments in
      map fst m = map fst motivation_keywords \<and> length m = 6 \<and>
      (\<forall>(category, kws) \<in> set motivation_keywords.
         map_of m category = Some (min (10 * (\<Sum>k\<leftarrow>kws. int (count_str t k))) 100) \<and>
         ((\<Sum>k\<leftarrow>kws. int (count_str t k)) = 3 \<longrightarrow> map_of m category = Some 30) \<and>
         ((\<Sum>k\<leftarrow>kws. int (count_str t k)) = 15 \<longrightarrow> map_of m category = Some 100)))"
proof -
  let ?t = "content_text posts comments"
  let ?f = "\<lambda>x. (fst x, min (count_keywords ?t (snd x) * 10) 100)"
  let ?m = "map ?f motivation_keywords"
  have keys: "map fst ?m = map fst motivation_keywords" by (simp add: comp_def)
  have len: "length ?m = 6" by (simp add: motivation_keywords_def)
  have ck: "count_keywords ?t kws = (\<Sum>k\<leftarrow>kws. int (count_str ?t k))" for kws
    by (simp add: count_keywords_def comp_def) (induction kws; simp)
  have look: "map_of ?m category = Some (min (10 * (\<Sum>k\<leftarrow>kws. int (count_str ?t k))) 100)"
    if "(category, kws) \<in> set motivation_keywords" for category kws
  proof -
    have "distinct (map fst ?m)" using motivation_keywords_distinct by (simp add: comp_def)
    moreover have "(category, min (count_keywords ?t kws * 10) 100) \<in> set ?m"
      using that by force
    ultimately have "map_of ?m category = Some (min (count_keywords ?t kws * 10) 100)"
      by (rule map_of_is_SomeI)
    then show ?thesis by (simp add: ck mult.commute)
  qed
  show ?thesis
    unfolding Let_def analyze_motivations_eq using keys len look by auto
qed

theorem motivation_scores_witness:
  "(S ''convenience'', [S ''easy'', S ''quick'', S ''fast'', S ''convenient'', S ''simple''])
     \<in> set motivation_keywords \<and>
   (\<Sum>k\<leftarrow>[S ''easy'', S ''quick'', S ''fast'', S ''convenient'', S ''simple''].
      int (count_str (content_text example_posts example_comments) k)) = 3 \<and>
   map_of (analyze_motivations example_posts example_comments) (S ''convenience'') = Some 30 \<and>
   (S ''dietary_needs'', [S ''diet'', S ''nutrition'', S ''healthy'', S ''organic'', S ''vegan''])
     \<in> set motivation_keywords \<and>
   (\<Sum>k\<leftarrow>[S ''diet'', S ''nutrition'', S ''healthy'', S ''organic'', S ''vegan''].
      int (count_str (content_text example_posts example_comments) k)) = 15 \<and>
   map_of (analyze_motivations example_posts example_comments) (S ''dietary_needs'') = Some 100"
proof -
  let ?t = "content_text example_posts example_comments"
  let ?k1 = "[S ''easy'', S ''quick'', S ''fast'', S ''convenient'', S ''simple'']"
  let ?k2 = "[S ''diet'', S ''nutrition'', S ''healthy'', S ''organic'', S ''vegan'']"
  have m1: "(S ''convenience'', ?k1) \<in> set motivation_keywords"
    by (simp add: motivation_keywords_def)
  have m2: "(S ''dietary_needs'', ?k2) \<in> set motivation_keywords"
    by (simp add: motivation_keywords_def)
  have c1: "(\<Sum>k\<leftarrow>?k1. int (count_str ?t k)) = 3" by code_simp
  have c2: "(\<Sum>k\<leftarrow>?k2. int (count_str ?t k)) = 15" by code_simp
  note T = motivation_scores[of example_posts example_comments, unfolded Let_def]
  from T m1 c1 have r1:
    "map_of (analyze_motivations example_posts example_comments) (S ''convenience'') = Some 30"
    by fastforce
  from T m2 c2 have r2:
    "map_of (analyze_motivations example_posts example_comments) (S ''dietary_needs'') = Some 100"
    by fastforce
  from m1 c1 r1 m2 c2 r2 show ?thesis by (intro conjI)
qed

section \<open>Personality gauges\<close>

lemma times_replicate: "times c k = replicate (nat k) c"
  by (simp add: times_def)

lemma gauge_line_bar:
  assumes "0 \<le> score" "score \<le> 100"
  shows "gauge_line l score r =
           l @ replicate (10 - nat (score div 10)) FULL_BLOCK @
           replicate (nat (score div 10)) LIGHT_SHADE @ r"
    and "nat (score div 10) \<le> 10"
proof -
  have "0 \<le> score div 10" "score div 10 \<le> 10" using assms by simp_all
  then show "nat (score div 10) \<le> 10" by simp
  have "nat (10 - score div 10) = 10 - nat (score div 10)"
    using \<open>0 \<le> score div 10\<close> by simp
  then show "gauge_line l score r =
           l @ replicate (10 - nat (score div 10)) FULL_BLOCK @
           replicate (nat (score div 10)) LIGHT_SHADE @ r"
    by (simp add: gauge_line_def times_def)
qed

lemma report_gauge_lines:
  "report_lines now_text p ! 13 =
     gauge_line (S ''INTROVERT '') (introvert_extrovert (personality p)) (S '' EXTROVERT'')"
  "report_lines now_text p ! 14 =
     gauge_line (S ''INTUITION '') (intuition_sensing (personality p)) (S '' SENSING'')"
  "report_lines now_text p ! 15 =
     gauge_line (S ''FEELING   '') (feeling_thinking (personality p)) (S '' THINKING'')"
  "report_lines now_text p ! 16 =
     gauge_line (S ''PERCEIVING'') (perceiving_judging (personality p)) (S '' JUDGING'')"
  by (simp_all add: report_lines_def header_lines_def basic_lines_def personality_lines_def
        Let_def nth_append)

text \<open>
  C7. For a persona whose four axis scores lie in 0..100, as the analyzer's do, lines 13 to
  16 of the report are the four gauges: the left pole label, ten bar glyphs of which the
  first \<open>10 - score div 10\<close> are filled and the last \<open>score div 10\<close> are track, and the right
  pole label. Score 30 gives 7 filled and 3 track, score 100 gives 0 filled and 10 track.
\<close>

theorem personality_gauges:
  assumes "\<forall>score \<in> {introvert_extrovert (personality p), intuition_sensing (personality p),
             feeling_thinking (personality p), perceiving_judging (personality p)}.
             0 \<le> score \<and> score \<le> 100"
  shows "report_lines now_text p ! 13 =
           S ''INTROVERT '' @ bar (introvert_extrovert (personality p)) @ S '' EXTROVERT'' \<and>
         report_lines now_text p ! 14 =
           S ''INTUITION '' @ bar (intuition_sensing (personality p)) @ S '' SENSING'' \<and>
         report_lines now_text p ! 15 =
           S ''FEELING   '' @ bar (feeling_thinking (personality p)) @ S '' THINKING'' \<and>
         report_lines now_text p ! 16 =
           S ''PERCEIVING'' @ bar (perceiving_judging (personality p)) @ S '' JUDGING'' \<and>
         (\<forall>score \<in> {introvert_extrovert (personality p), intuition_sensing (personality p),
             feeling_thinking (personality p), perceiving_judging (personality p)}.
            length (bar score) = 10 \<and>
            bar score = replicate (10 - nat (score div 10)) FULL_BLOCK @
                        replicate (nat (score div 10)) LIGHT_SHADE) \<and>
         bar 30 = replicate 7 FULL_BLOCK @ replicate 3 LIGHT_SHADE \<and>
         bar 100 = replicate 0 FULL_BLOCK @ replicate 10 LIGHT_SHADE"
proof -
  have len: "length (bar score) = 10" if "0 \<le> score" "score \<le> 100" for score
    using gauge_line_bar(2)[OF that] by (simp add: bar_def)
  have g: "gauge_line l score r = l @ bar score @ r" if "0 \<le> score" "score \<le> 100"
    for l score r
    using gauge_line_bar(1)[OF that] by (simp add: bar_def)
  have ex: "bar 30 = replicate 7 FULL_BLOCK @ replicate 3 LIGHT_SHADE"
    "bar 100 = replicate 0 FULL_BLOCK @ replicate 10 LIGHT_SHADE"
    by (simp_all add: bar_def)
  have lines:
    "report_lines now_text p ! 13 =
       S ''INTROVERT '' @ bar (introvert_extrovert (personality p)) @ S '' EXTROVERT''"
    "report_lines now_text p ! 14 =
       S ''INTUITION '' @ bar (intuition_sensing (personality p)) @ S '' SENSING''"
    "report_lines now_text p ! 15 =
       S ''FEELING   '' @ bar (feeling_thinking (personality p)) @ S '' THINKING''"
    "report_lines now_text p ! 16 =
       S ''PERCEIVING'' @ bar (perceiving_judging (personality p)) @ S '' JUDGING''"
    using assms by (simp_all add: report_gauge_lines g)
  have bars: "\<forall>score \<in> {introvert_extrovert (personality p), intuition_sensing (personality p),
             feeling_thinking (personality p), perceiving_judging (personality p)}.
            length (bar score) = 10 \<and>
            bar score = replicate (10 - nat (score div 10)) FULL_BLOCK @
                        replicate (nat (score div 10)) LIGHT_SHADE"
  proof
    fix score
    assume "score \<in> {introvert_extrovert (personality p), intuition_sensing (personality p),
             feeling_thinking (personality p), perceiving_judging (personality p)}"
    with assms have "0 \<le> score" "score \<le> 100" by blast+
    then have "length (bar score) = 10" by (rule len)
    moreover have "bar score = replicate (10 - nat (score div 10)) FULL_BLOCK @
                        replicate (nat (score div 10)) LIGHT_SHADE"
      by (simp add: bar_def)
    ultimately show "length (bar score) = 10 \<and>
            bar score = replicate (10 - nat (score div 10)) FULL_BLOCK @
                        replicate (nat (score div 10)) LIGHT_SHADE" ..
  qed
  from lines bars ex show ?thesis by (intro conjI)
qed

theorem personality_gauges_witness:
  "0 \<le> introvert_extrovert (personality gauge_persona) \<and>
   introvert_extrovert (personality gauge_persona) \<le> 100 \<and>
   0 \<le> intuition_sensing (personality gauge_persona) \<and>
   intuition_sensing (personality gauge_persona) \<le> 100 \<and>
   0 \<le> feeling_thinking (personality gauge_persona) \<and>
   feeling_thinking (personality gauge_persona) \<le> 100 \<and>
   0 \<le> perceiving_judging (personality gauge_persona) \<and>
   perceiving_judging (personality gauge_persona) \<le> 100 \<and>
   report_lines (S ''2025-01-01 00:00:00'') gauge_persona ! 13 =
     S ''INTROVERT '' @ replicate 7 FULL_BLOCK @ replicate 3 LIGHT_SHADE @ S '' EXTROVERT'' \<and>
   report_lines (S ''2025-01-01 00:00:00'') gauge_persona ! 14 =
     S ''INTUITION '' @ replicate 10 LIGHT_SHADE @ S '' SENSING'' \<and>
   introvert_extrovert
     (personality (generate_persona example_env (S ''bob'') example_posts example_comments)) = 50 \<and>
   report_lines (S ''2025-01-01 00:00:00'')
     (generate_persona example_env (S ''bob'') example_posts example_comments) ! 13 =
     S ''INTROVERT '' @ replicate 5 FULL_BLOCK @ replicate 5 LIGHT_SHADE @ S '' EXTROVERT''"
proof -
  let ?now = "S ''2025-01-01 00:00:00''"
  let ?q = "generate_persona example_env (S ''bob'') example_posts example_comments"
  have s: "introvert_extrovert (personality gauge_persona) = 30"
    "intuition_sensing (personality gauge_persona) = 100"
    "feeling_thinking (personality gauge_persona) = 50"
    "perceiving_judging (personality gauge_persona) = 0"
    by (simp_all add: gauge_persona_def)
  have h: "\<forall>score \<in> {introvert_extrovert (personality gauge_persona),
       intuition_sensing (personality gauge_persona),
       feeling_thinking (personality gauge_persona),
       perceiving_judging (personality gauge_persona)}. 0 \<le> score \<and> score \<le> 100"
    by (simp add: s)
  from personality_gauges[OF h, of ?now]
  have g: "report_lines ?now gauge_persona ! 13 =
     S ''INTROVERT '' @ replicate 7 FULL_BLOCK @ replicate 3 LIGHT_SHADE @ S '' EXTROVERT''"
    "report_lines ?now gauge_persona ! 14 =
     S ''INTUITION '' @ replicate 10 LIGHT_SHADE @ S '' SENSING''"
    by (simp_all add: s)
  have hq: "\<forall>score \<in> {introvert_extrovert (personality ?q), intuition_sensing (personality ?q),
       feeling_thinking (personality ?q), perceiving_judging (personality ?q)}.
       0 \<le> score \<and> score \<le> 100"
    using personality_axes_bounds[of example_posts example_comments]
    by (simp add: generate_persona_def)
  have sq: "introvert_extrovert (personality ?q) = 50"
    by code_simp
  from personality_gauges[OF hq, of ?now]
  have "report_lines ?now ?q ! 13 =
     S ''INTROVERT '' @ bar (introvert_extrovert (personality ?q)) @ S '' EXTROVERT''"
    by blast
  then have gq: "report_lines ?now ?q ! 13 =
     S ''INTROVERT '' @ replicate 5 FULL_BLOCK @ replicate 5 LIGHT_SHADE @ S '' EXTROVERT''"
    by (simp add: sq bar_def)
  from s g sq gq show ?thesis by simp
qed

section \<open>Representative quote\<close>

lemma post_quote_find:
  "post_quote posts =
     (case find (\<lambda>post. 50 < length (selftext post)) posts of
        None \<Rightarrow> ([], [])
      | Some post \<Rightarrow> (take 150 (selftext post) @ S ''...'',
                      S ''Post: '' @ title post @ S '' (ID: '' @ p_id post @ S '')''))"
  by (induction posts) (auto simp: qualifying_post_def)

lemma comment_quote_find:
  "comment_quote comments =
     (case find (\<lambda>comment. 30 < length (body comment)) comments of
        None \<Rightarrow> ([], [])
      | Some comment \<Rightarrow> (take 150 (body comment) @ S ''...'',
                         S ''Comment ID: '' @ c_id comment))"
  by (induction comments) (auto simp: qualifying_comment_def)

text \<open>
  C1, as the code has it. The quote section shows the first sample post whose body is longer
  than 50 characters, cut to 150 characters and followed by three dots, cited by title and
  ID; failing that, the first sample comment whose body is longer than 30 characters, cut
  the same way and cited by ID. When no post and no comment qualifies, the quote and its
  source line are left out, but the heading and its rule are still printed as long as there
  is any sample post or comment; the section is absent only when both sample lists are empty.
\<close>

theorem representative_quote_section:
  "quote_lines p =
     (case find (\<lambda>post. 50 < length (selftext post)) (raw_posts p) of
        Some post \<Rightarrow>
          [S ''REPRESENTATIVE QUOTE'', times 45 40,
           [34] @ take 150 (selftext post) @ S ''...'' @ [34],
           S ''Source: Post: '' @ title post @ S '' (ID: '' @ p_id post @ S '')'']
      | None \<Rightarrow>
         (case find (\<lambda>comment. 30 < length (body comment)) (raw_comments p) of
            Some comment \<Rightarrow>
              [S ''REPRESENTATIVE QUOTE'', times 45 40,
               [34] @ take 150 (body comment) @ S ''...'' @ [34],
               S ''Source: Comment ID: '' @ c_id comment]
          | None \<Rightarrow>
              if raw_posts p = [] \<and> raw_comments p = [] then []
              else [S ''REPRESENTATIVE QUOTE'', times 45 40])) \<and>
   report_lines now_text p =
     header_lines p @ basic_lines p @ personality_lines p @ motivations_lines p @
     behaviour_lines p @ frustration_lines p @ goal_lines p @ quote_lines p @
     footer_lines now_text p"
proof -
  have find_nil: "find P xs = Some x \<Longrightarrow> xs \<noteq> []" for P and xs :: "'a list" and x
    by auto
  have "quote_lines p =
     (case find (\<lambda>post. 50 < length (selftext post)) (raw_posts p) of
        Some post \<Rightarrow>
          [S ''REPRESENTATIVE QUOTE'', times 45 40,
           [34] @ take 150 (selftext post) @ S ''...'' @ [34],
           S ''Source: Post: '' @ title post @ S '' (ID: '' @ p_id post @ S '')'']
      | None \<Rightarrow>
         (case find (\<lambda>comment. 30 < length (body comment)) (raw_comments p) of
            Some comment \<Rightarrow>
              [S ''REPRESENTATIVE QUOTE'', times 45 40,
               [34] @ take 150 (body comment) @ S ''...'' @ [34],
               S ''Source: Comment ID: '' @ c_id comment]
          | None \<Rightarrow>
              if raw_posts p = [] \<and> raw_comments p = [] then []
              else [S ''REPRESENTATIVE QUOTE'', times 45 40]))"
    by (auto simp: quote_lines_def post_quote_find comment_quote_find Let_def S_def
          split: option.splits dest: find_nil)
  then show ?thesis by (simp add: report_lines_def)
qed

theorem representative_quote_section_witness:
  "find (\<lambda>post. 50 < length (selftext post)) (raw_posts long_post_persona) = Some long_post \<and>
   quote_lines long_post_persona =
     [S ''REPRESENTATIVE QUOTE'', times 45 40,
      [34] @ S ''We moved to another city last month and everything still feels new....'' @ [34],
      S ''Source: Post: Moving (ID: p7)'']"
proof -
  have f: "find (\<lambda>post. 50 < length (selftext post)) (raw_posts long_post_persona)
             = Some long_post"
    by (simp add: long_post_persona_def generate_persona_def long_post_def example_post_def S_def)
  have l: "selftext long_post =
      S ''We moved to another city last month and everything still feels new.''"
    "title long_post = S ''Moving''" "p_id long_post = S ''p7''"
    by (simp_all add: long_post_def example_post_def)
  from representative_quote_section[of long_post_persona "[]"] f
  show ?thesis by (simp add: l S_def)
qed

text \<open>
  C1 as stated does not hold: a persona with one sample post of 12 characters and no sample
  comment has no qualifying item, and its report still carries the heading of the section.
\<close>

theorem quote_heading_without_quote:
  "\<not> list_ex qualifying_post (raw_posts short_post_persona) \<and>
   \<not> list_ex qualifying_comment (raw_comments short_post_persona) \<and>
   quote_lines short_post_persona = [S ''REPRESENTATIVE QUOTE'', times 45 40] \<and>
   S ''REPRESENTATIVE QUOTE'' \<in> set (report_lines (S ''2025-01-01 00:00:00'') short_post_persona)"
proof -
  have rp: "raw_posts short_post_persona = [example_post ''p1'' ''Hello'' ''a short text'' ''python'']"
    and rc: "raw_comments short_post_persona = []"
    by (simp_all add: short_post_persona_def generate_persona_def)
  have a: "\<not> list_ex qualifying_post (raw_posts short_post_persona)"
    by (simp add: rp qualifying_post_def example_post_def S_def)
  have b: "\<not> list_ex qualifying_comment (raw_comments short_post_persona)"
    by (simp add: rc)
  have c: "quote_lines short_post_persona = [S ''REPRESENTATIVE QUOTE'', times 45 40]"
    by (simp add: quote_lines_def rp rc qualifying_post_def example_post_def S_def)
  have d: "S ''REPRESENTATIVE QUOTE''
             \<in> set (report_lines (S ''2025-01-01 00:00:00'') short_post_persona)"
    by (simp add: report_lines_def c)
  from a b c d show ?thesis by (intro conjI)
qed

section \<open>Two runs on the same input\<close>

lemma list_of_set_mset: "mset (list_of_set rank xs) = mset (remdups xs)"
  by (simp add: list_of_set_def)

lemma list_of_set_distinct: "distinct (list_of_set rank xs)"
  by (simp add: list_of_set_def)

text \<open>
  C2, as the code has it. Two runs of the analyzer on the same posts and comments, each with
  its own clock and its own iteration order of string sets, agree on every field of the
  persona other than the analysis date, except that the frustrations and the goals agree as
  collections only: each list holds the same sentences, each once. When the two runs iterate
  string sets in the same order, the two lists are equal as well.
\<close>

theorem runs_agree_up_to_set_order:
  "(let p1 = generate_persona env1 name posts comments;
        p2 = generate_persona env2 name posts comments
    in username p1 = username p2 \<and> profile_url p1 = profile_url p2 \<and>
       total_posts p1 = total_posts p2 \<and> total_comments p1 = total_comments p2 \<and>
       demographics p1 = demographics p2 \<and> personality p1 = personality p2 \<and>
       motivations p1 = motivations p2 \<and> behaviors p1 = behaviors p2 \<and>
       raw_posts p1 = raw_posts p2 \<and> raw_comments p1 = raw_comments p2 \<and>
       mset (frustrations p1) = mset (frustrations p2) \<and>
       distinct (frustrations p1) \<and> distinct (frustrations p2) \<and>
       mset (goals p1) = mset (goals p2) \<and>
       distinct (goals p1) \<and> distinct (goals p2) \<and>
       (set_rank env1 = set_rank env2 \<longrightarrow>
          frustrations p1 = frustrations p2 \<and> goals p1 = goals p2))"
  by (simp add: generate_persona_def analyze_frustrations_def analyze_goals_and_needs_def
        list_of_set_mset list_of_set_distinct)

theorem runs_agree_up_to_set_order_witness:
  "set_rank example_env = set_rank later_env \<and>
   analysis_date (generate_persona example_env (S ''bob'') frustrated_posts []) \<noteq>
   analysis_date (generate_persona later_env (S ''bob'') frustrated_posts []) \<and>
   frustrations (generate_persona example_env (S ''bob'') frustrated_posts []) =
   frustrations (generate_persona later_env (S ''bob'') frustrated_posts []) \<and>
   mset (frustrations (generate_persona example_env (S ''bob'') frustrated_posts [])) =
   mset (frustrations (generate_persona length_rank_env (S ''bob'') frustrated_posts []))"
proof -
  have r: "set_rank example_env = set_rank later_env"
    by (simp add: example_env_def later_env_def)
  have d: "analysis_date (generate_persona example_env (S ''bob'') frustrated_posts []) \<noteq>
           analysis_date (generate_persona later_env (S ''bob'') frustrated_posts [])"
    by (simp add: generate_persona_def example_env_def later_env_def S_def)
  from runs_agree_up_to_set_order[of example_env "S ''bob''" frustrated_posts "[]" later_env] r
  have f: "frustrations (generate_persona example_env (S ''bob'') frustrated_posts []) =
           frustrations (generate_persona later_env (S ''bob'') frustrated_posts [])"
    by (simp add: Let_def)
  from runs_agree_up_to_set_order[of example_env "S ''bob''" frustrated_posts "[]" length_rank_env]
  have m: "mset (frustrations (generate_persona example_env (S ''bob'') frustrated_posts [])) =
   mset (frustrations (generate_persona length_rank_env (S ''bob'') frustrated_posts []))"
    by (simp add: Let_def)
  from r d f m show ?thesis by (intro conjI)
qed

text \<open>
  C2 as stated does not hold: on a post that mentions a crash and waiting, a run whose set
  order puts the technology sentence first and a run whose set order puts the shorter
  sentence first return the two frustrations in opposite orders.
\<close>

theorem set_order_changes_frustrations:
  "frustrations (generate_persona example_env (S ''bob'') frustrated_posts []) =
     [S ''Technology issues and software problems'', S ''Time-wasting processes and delays''] \<and>
   frustrations (generate_persona length_rank_env (S ''bob'') frustrated_posts []) =
     [S ''Time-wasting processes and delays'', S ''Technology issues and software problems''] \<and>
   frustrations (generate_persona example_env (S ''bob'') frustrated_posts []) \<noteq>
   frustrations (generate_persona length_rank_env (S ''bob'') frustrated_posts [])"
proof -
  have a: "frustrations (generate_persona example_env (S ''bob'') frustrated_posts []) =
     [S ''Technology issues and software problems'', S ''Time-wasting processes and delays'']"
    by code_simp
  have b: "frustrations (generate_persona length_rank_env (S ''bob'') frustrated_posts []) =
     [S ''Time-wasting processes and delays'', S ''Technology issues and software problems'']"
    by code_simp
  have c: "[S ''Technology issues and software problems'', S ''Time-wasting processes and delays'']
     \<noteq> [S ''Time-wasting processes and delays'', S ''Technology issues and software problems'']"
    by (simp add: S_def)
  from a b c show ?thesis by simp
qed

section \<open>Subreddit activity\<close>

lemma set_first_seen [simp]: "set (first_seen xs) = set xs"
  by (induction xs) auto

lemma distinct_first_seen [simp]: "distinct (first_seen xs)"
  by (induction xs) (auto simp: distinct_removeAll)

lemma first_seen_snoc:
  "first_seen (xs @ [s]) = (if s \<in> set xs then first_seen xs else first_seen xs @ [s])"
  by (induction xs) auto

lemma first_index_less: "x \<in> set xs \<Longrightarrow> first_index xs x < length xs"
  unfolding first_index_def by (induction xs) auto

lemma first_index_append_in: "x \<in> set xs \<Longrightarrow> first_index (xs @ ys) x = first_index xs x"
  unfolding first_index_def by (induction xs) auto

lemma first_index_snoc_new: "s \<notin> set xs \<Longrightarrow> first_index (xs @ [s]) s = length xs"
  unfolding first_index_def by (induction xs) auto

lemma first_seen_sorted:
  "sorted_wrt (\<lambda>a b. first_index xs a < first_index xs b) (first_seen xs)"
proof (induction xs rule: rev_induct)
  case Nil
  then show ?case by simp
next
  case (snoc s xs)
  have keep: "sorted_wrt (\<lambda>a b. first_index (xs @ [s]) a < first_index (xs @ [s]) b)
                (first_seen xs)"
    using snoc.IH by (rule sorted_wrt_mono_rel[rotated]) (simp add: first_index_append_in)
  show ?case
  proof (cases "s \<in> set xs")
    case True
    then show ?thesis using keep by (simp add: first_seen_snoc)
  next
    case False
    have "\<forall>a \<in> set (first_seen xs). first_index (xs @ [s]) a < first_index (xs @ [s]) s"
      using False by (simp add: first_index_append_in first_index_snoc_new first_index_less)
    then show ?thesis using keep False by (simp add: first_seen_snoc sorted_wrt_append)
  qed
qed

lemma dict_set_map:
  "s \<in> set L \<Longrightarrow> distinct L \<Longrightarrow>
   dict_set (map (\<lambda>t. (t, c t)) L) s v = map (\<lambda>t. (t, if t = s then v else c t)) L"
  by (induction L) auto

lemma dict_get_map: "dict_get (map (\<lambda>t. (t, c t)) L) s d = (if s \<in> set L then c s else d)"
  by (induction L) auto


lemma counted_step:
  "dict_set (counted seen) s (dict_get (counted seen) s 0 + 1) = counted (seen @ [s])"
proof (cases "s \<in> set seen")
  case True
  have "dict_set (counted seen) s (dict_get (counted seen) s 0 + 1) =
          map (\<lambda>t. (t, if t = s then int (count_list seen s) + 1 else int (count_list seen t)))
            (first_seen seen)"
    unfolding counted_def using True by (simp add: dict_get_map dict_set_map)
  also have "\<dots> = counted (seen @ [s])"
    unfolding counted_def using True by (simp add: first_seen_snoc)
  finally show ?thesis .
next
  case False
  have "dict_set (counted seen) s (dict_get (counted seen) s 0 + 1) = counted seen @ [(s, 1)]"
    unfolding counted_def using False
    by (subst dict_set_new) (auto simp: dict_get_map)
  also have "\<dots> = counted (seen @ [s])"
    unfolding counted_def using False by (auto simp: first_seen_snoc)
  finally show ?thesis .
qed

lemma count_subreddits_counted:
  "count_subreddits xs (counted seen) = counted (seen @ filter (\<lambda>s. s \<noteq> []) xs)"
proof (induction xs arbitrary: seen)
  case Nil
  then show ?case by simp
next
  case (Cons s xs)
  show ?case
  proof (cases "s = []")
    case True
    then show ?thesis using Cons.IH[of seen] by simp
  next
    case False
    then show ?thesis using Cons.IH[of "seen @ [s]"] by (simp add: counted_step)
  qed
qed

lemma subreddit_counts_counted:
  "subreddit_counts posts comments = counted (subreddit_mentions posts comments)"
proof -
  have "counted [] = []" by (simp add: counted_def)
  then have "count_subreddits (map p_subreddit posts) [] =
               counted (filter (\<lambda>s. s \<noteq> []) (map p_subreddit posts))"
    using count_subreddits_counted[of "map p_subreddit posts" "[]"] by simp
  then show ?thesis
    by (simp add: subreddit_counts_def subreddit_mentions_def count_subreddits_counted)
qed

lemma insort_key_ranked:
  assumes "sorted_wrt (\<lambda>a b. f a < f b \<or> (f a = f b \<and> R a b)) ys" "\<forall>y \<in> set ys. R x y"
  shows "sorted_wrt (\<lambda>a b. f a < f b \<or> (f a = f b \<and> R a b)) (insort_key f x ys)"
  using assms
proof (induction ys)
  case Nil
  then show ?case by simp
next
  case (Cons y ys)
  show ?case
  proof (cases "f x \<le> f y")
    case True
    then show ?thesis using Cons.prems by (fastforce simp: le_less)
  next
    case False
    then show ?thesis using Cons by (auto simp: set_insort_key)
  qed
qed

lemma sort_key_ranked:
  "sorted_wrt R xs \<Longrightarrow>
   sorted_wrt (\<lambda>a b. f a < f b \<or> (f a = f b \<and> R a b)) (sort_key f xs)"
proof (induction xs)
  case Nil
  then show ?case by simp
next
  case (Cons x xs)
  then show ?case by (simp add: sort_key_simps insort_key_ranked)
qed

lemma counted_sorted:
  "sorted_wrt (\<lambda>a b. first_index seen (fst a) < first_index seen (fst b)) (counted seen)"
  using first_seen_sorted[of seen] by (simp add: counted_def sorted_wrt_map)

lemma ranked_counts:
  "sorted_wrt (ranks_before seen) (sort_key (\<lambda>x. - snd x) (counted seen))"
proof -
  have "ranks_before seen =
      (\<lambda>a b. - snd a < - snd b \<or>
         (- snd a = - snd b \<and> first_index seen (fst a) < first_index seen (fst b)))"
    by (intro ext) (auto simp: ranks_before_def)
  then show ?thesis
    using sort_key_ranked[OF counted_sorted, of "\<lambda>x. - snd x" seen] by simp
qed


lemma str_nat_digits: "\<forall>d \<in> set (str_nat n). 48 \<le> d \<and> d \<le> 57"
proof (induction n rule: str_nat.induct)
  case (1 n)
  show ?case
  proof (cases "n < 10")
    case True
    then show ?thesis by (subst str_nat.simps) simp
  next
    case False
    have "n mod 10 < 10" by simp
    then have "48 + n mod 10 \<le> 57" by linarith
    then show ?thesis using 1[OF False] False by (subst str_nat.simps) auto
  qed
qed

lemma str_nat_nonempty: "str_nat n \<noteq> []"
  by (subst str_nat.simps) simp

lemma str_int_no_space: "32 \<notin> set (str_int i)"
  using str_nat_digits[of "nat (- i)"] str_nat_digits[of "nat i"]
  by (auto simp: str_int_def)

lemma str_int_nonempty: "str_int i \<noteq> []"
  by (simp add: str_int_def str_nat_nonempty)

lemma behavior_desc_empty_name:
  assumes "s \<noteq> []"
  shows "behavior_desc (s, c) \<noteq> behavior_desc ([], n)"
proof
  let ?A = "S '' community with ''"
  assume "behavior_desc (s, c) = behavior_desc ([], n)"
  then have eq: "s @ ?A @ str_int c = ?A @ str_int n"
    by (simp add: behavior_desc_def)
  have lenA: "length ?A = 16" by (simp add: S_def)
  have A15: "?A ! 15 = 32" by (simp add: S_def)
  from eq have "length (s @ ?A @ str_int c) = length (?A @ str_int n)" by simp
  then have len: "length s + length (str_int c) = length (str_int n)" by simp
  have spos: "0 < length s" using assms by simp
  have cpos: "0 < length (str_int c)" using str_int_nonempty[of c] by simp
  have "(s @ ?A @ str_int c) ! (length s + 15) = (?A @ str_int c) ! 15"
    by (simp add: nth_append)
  also have "\<dots> = 32" using A15 lenA by (simp add: nth_append)
  finally have l: "(s @ ?A @ str_int c) ! (length s + 15) = 32" .
  have "(?A @ str_int n) ! (length s + 15) = str_int n ! (length s - 1)"
    using spos lenA by (simp add: nth_append)
  with eq l have "str_int n ! (length s - 1) = 32" by simp
  moreover have "length s - 1 < length (str_int n)" using len spos cpos by linarith
  ultimately have "32 \<in> set (str_int n)" by (metis nth_mem)
  then show False using str_int_no_space by blast
qed

lemma behavior_desc_activity: "is_subreddit_activity (behavior_desc x)"
  by (simp add: is_subreddit_activity_def behavior_desc_def)

lemma frequency_not_activity:
  "is_posting_frequency b \<Longrightarrow> \<not> is_subreddit_activity b"
  "is_commenting_frequency b \<Longrightarrow> \<not> is_subreddit_activity b"
  by (auto simp: is_posting_frequency_def is_commenting_frequency_def
        is_subreddit_activity_def S_def)

lemma posting_not_commenting: "is_posting_frequency b \<Longrightarrow> \<not> is_commenting_frequency b"
  by (auto simp: is_posting_frequency_def is_commenting_frequency_def S_def)


lemma counted_keys: "fst ` set (counted seen) = set seen"
  by (force simp: counted_def)

lemma counted_set:
  "set (counted seen) = (\<lambda>s. (s, int (count_list seen s))) ` set seen"
  by (simp add: counted_def)

lemma counted_distinct: "distinct (counted seen)"
  by (simp add: counted_def distinct_map inj_on_def)

lemma top_subreddits_eq:
  "top_subreddits posts comments =
     take 3 (sort_key (\<lambda>x. - snd x) (counted (subreddit_mentions posts comments)))"
  by (simp add: top_subreddits_def subreddit_counts_counted)

lemma top_subreddits_subset:
  "set (top_subreddits posts comments) \<subseteq> set (counted (subreddit_mentions posts comments))"
  unfolding top_subreddits_eq using set_take_subset[of 3] by fastforce

lemma length_top_subreddits: "length (top_subreddits posts comments) \<le> 3"
  by (simp add: top_subreddits_def)

lemma posting_pattern_kind:
  "length (posting_pattern posts) \<le> 1" "\<forall>b \<in> set (posting_pattern posts). is_posting_frequency b"
  by (simp_all add: posting_pattern_def is_posting_frequency_def)

lemma commenting_pattern_kind:
  "length (commenting_pattern comments) \<le> 1"
  "\<forall>b \<in> set (commenting_pattern comments). is_commenting_frequency b"
  by (simp_all add: commenting_pattern_def is_commenting_frequency_def)

lemma three_ranked:
  assumes "distinct L" "set L = {a, b, c}" "a \<noteq> b" "a \<noteq> c" "b \<noteq> c"
    and "sorted_wrt R L" "\<not> R b a" "\<not> R c a" "\<not> R c b"
  shows "L = [a, b, c]"
proof -
  have "length L = 3"
    using assms(1-5) distinct_card[of L] by simp
  then obtain x y z where L: "L = [x, y, z]"
    by (metis length_0_conv length_Suc_conv numeral_3_eq_3)
  have mem: "x \<in> {a, b, c}" "y \<in> {a, b, c}" "z \<in> {a, b, c}"
    using assms(2) unfolding L by auto
  have r: "R x y" "R x z" "R y z" "x \<noteq> y" "x \<noteq> z" "y \<noteq> z"
    using assms(1,6) unfolding L by auto
  have "x = a \<and> y = b \<and> z = c"
    using mem r assms(7-9) by blast
  then show ?thesis by (simp add: L)
qed


text \<open>
  C5. The counting loops build, for the subreddit names of the posts and then of the
  comments, the dictionary of their frequencies in first-encounter order. The top
  subreddits are the first three of its items ranked by count, higher first, and on equal
  counts the one met first first. The behaviors start with one \<open>Active in r/...\<close> string
  per top subreddit, in that order, and no later behavior is such a string. With three
  subreddits counted 5, 5 and 2, all three are top, and of the two counted 5 the one met
  first precedes the other.
\<close>

theorem top_subreddits_ranked:
  "(let subs = subreddit_mentions posts comments;
        top = top_subreddits posts comments;
        bs = analyze_behavior_and_habits posts comments
    in subreddit_counts posts comments =
         map (\<lambda>s. (s, int (count_list subs s))) (first_seen subs) \<and>
       (\<exists>ranked. mset ranked = mset (subreddit_counts posts comments) \<and>
          sorted_wrt (ranks_before subs) ranked \<and> top = take 3 ranked) \<and>
       take (length top) bs = map behavior_desc top \<and>
       (\<forall>b \<in> set (drop (length top) bs). \<not> is_subreddit_activity b) \<and>
       (\<forall>p g r. p \<noteq> g \<and> p \<noteq> r \<and> g \<noteq> r \<and> set subs = {p, g, r} \<and>
          count_list subs p = 5 \<and> count_list subs g = 5 \<and> count_list subs r = 2 \<and>
          first_index subs p < first_index subs g \<longrightarrow>
          top = [(p, 5), (g, 5), (r, 2)]))"
proof -
  define subs where "subs = subreddit_mentions posts comments"
  define ranked where "ranked = sort_key (\<lambda>x. - snd x) (counted subs)"
  define top where "top = top_subreddits posts comments"
  define bs where "bs = analyze_behavior_and_habits posts comments"
  have counts: "subreddit_counts posts comments = counted subs"
    by (simp add: subs_def subreddit_counts_counted)
  have c1: "subreddit_counts posts comments =
         map (\<lambda>s. (s, int (count_list subs s))) (first_seen subs)"
    by (simp add: counts counted_def)
  have top: "top = take 3 ranked"
    by (simp add: top_def ranked_def subs_def top_subreddits_eq)
  have srt: "sorted_wrt (ranks_before subs) ranked"
    unfolding ranked_def by (rule ranked_counts)
  have ms: "mset ranked = mset (subreddit_counts posts comments)"
    by (simp add: ranked_def counts)
  have c2: "\<exists>ranked. mset ranked = mset (subreddit_counts posts comments) \<and>
          sorted_wrt (ranks_before subs) ranked \<and> top = take 3 ranked"
    using ms srt top by blast
  have bs: "bs = map behavior_desc top @ posting_pattern posts @ commenting_pattern comments"
    by (simp add: bs_def top_def analyze_behavior_and_habits_def)
  have c3: "take (length top) bs = map behavior_desc top"
    by (simp add: bs)
  have c4: "\<forall>b \<in> set (drop (length top) bs). \<not> is_subreddit_activity b"
    using posting_pattern_kind(2)[of posts] commenting_pattern_kind(2)[of comments]
    by (auto simp: bs dest: frequency_not_activity)
  have c5: "top = [(p, 5), (g, 5), (r, 2)]"
    if h: "p \<noteq> g \<and> p \<noteq> r \<and> g \<noteq> r \<and> set subs = {p, g, r} \<and>
          count_list subs p = 5 \<and> count_list subs g = 5 \<and> count_list subs r = 2 \<and>
          first_index subs p < first_index subs g" for p g r
  proof -
    have "set ranked = set (counted subs)" by (simp add: ranked_def)
    also have "\<dots> = {(p, 5), (g, 5), (r, 2)}" using h by (simp add: counted_set)
    finally have st: "set ranked = {(p, 5), (g, 5), (r, 2)}" .
    have d: "distinct ranked" by (simp add: ranked_def counted_distinct)
    have "ranked = [(p, 5), (g, 5), (r, 2)]"
      using d st _ _ _ srt
      by (rule three_ranked) (use h in \<open>auto simp: ranks_before_def\<close>)
    then show ?thesis by (simp add: top)
  qed
  show ?thesis
    unfolding Let_def subs_def[symmetric] top_def[symmetric] bs_def[symmetric]
    using c1 c2 c3 c4 c5 by blast
qed


theorem top_subreddits_ranked_witness:
  "S ''python'' \<noteq> S ''golang'' \<and> S ''python'' \<noteq> S ''rust'' \<and> S ''golang'' \<noteq> S ''rust'' \<and>
   set (subreddit_mentions ranking_posts ranking_comments) =
     {S ''python'', S ''golang'', S ''rust''} \<and>
   count_list (subreddit_mentions ranking_posts ranking_comments) (S ''python'') = 5 \<and>
   count_list (subreddit_mentions ranking_posts ranking_comments) (S ''golang'') = 5 \<and>
   count_list (subreddit_mentions ranking_posts ranking_comments) (S ''rust'') = 2 \<and>
   first_index (subreddit_mentions ranking_posts ranking_comments) (S ''python'') <
   first_index (subreddit_mentions ranking_posts ranking_comments) (S ''golang'') \<and>
   top_subreddits ranking_posts ranking_comments =
     [(S ''python'', 5), (S ''golang'', 5), (S ''rust'', 2)] \<and>
   take 3 (analyze_behavior_and_habits ranking_posts ranking_comments) =
     [S ''Active in r/python community with 5 posts/comments'',
      S ''Active in r/golang community with 5 posts/comments'',
      S ''Active in r/rust community with 2 posts/comments'']"
proof -
  let ?subs = "subreddit_mentions ranking_posts ranking_comments"
  have ne: "S ''python'' \<noteq> S ''golang''" "S ''python'' \<noteq> S ''rust''"
    "S ''golang'' \<noteq> S ''rust''"
    by (simp_all add: S_def)
  have subs: "?subs =
      [S ''python'', S ''golang'', S ''rust'', S ''golang'', S ''python'',
       S ''golang'', S ''golang'', S ''golang'', S ''python'', S ''python'', S ''python'',
       S ''rust'']"
    by (simp add: subreddit_mentions_def ranking_posts_def ranking_comments_def
          example_post_def example_comment_def numeral_3_eq_3)
  have st: "set ?subs = {S ''python'', S ''golang'', S ''rust''}"
    unfolding subs by auto
  have cnt: "count_list ?subs (S ''python'') = 5" "count_list ?subs (S ''golang'') = 5"
    "count_list ?subs (S ''rust'') = 2"
    unfolding subs using ne by simp_all
  have fi: "first_index ?subs (S ''python'') < first_index ?subs (S ''golang'')"
    unfolding subs using ne by (simp add: first_index_def)
  note T = top_subreddits_ranked[of ranking_posts ranking_comments, unfolded Let_def]
  from T ne st cnt fi
  have top: "top_subreddits ranking_posts ranking_comments =
     [(S ''python'', 5), (S ''golang'', 5), (S ''rust'', 2)]"
    by blast
  from T have "take (length (top_subreddits ranking_posts ranking_comments))
      (analyze_behavior_and_habits ranking_posts ranking_comments) =
      map behavior_desc (top_subreddits ranking_posts ranking_comments)"
    by blast
  then have bs: "take 3 (analyze_behavior_and_habits ranking_posts ranking_comments) =
      map behavior_desc [(S ''python'', 5), (S ''golang'', 5), (S ''rust'', 2)]"
    by (simp add: top numeral_3_eq_3)
  have desc: "map behavior_desc [(S ''python'', 5), (S ''golang'', 5), (S ''rust'', 2)] =
     [S ''Active in r/python community with 5 posts/comments'',
      S ''Active in r/golang community with 5 posts/comments'',
      S ''Active in r/rust community with 2 posts/comments'']"
    by code_simp
  from ne st cnt fi top bs desc show ?thesis by simp
qed

text \<open>
  C9. The behaviors are at most five: at most three subreddit-activity strings, at most one
  posting-frequency string and at most one commenting-frequency string, and nothing else.
\<close>

theorem behaviors_at_most_five:
  "(let bs = analyze_behavior_and_habits posts comments in
      length bs \<le> 5 \<and>
      length (filter is_subreddit_activity bs) \<le> 3 \<and>
      length (filter is_posting_frequency bs) \<le> 1 \<and>
      length (filter is_commenting_frequency bs) \<le> 1 \<and>
      (\<forall>b \<in> set bs.
         is_subreddit_activity b \<or> is_posting_frequency b \<or> is_commenting_frequency b))"
proof -
  let ?A = "map behavior_desc (top_subreddits posts comments)"
  let ?P = "posting_pattern posts"
  let ?C = "commenting_pattern comments"
  have lenA: "length ?A \<le> 3" by (simp add: length_top_subreddits)
  note P = posting_pattern_kind[of posts] and C = commenting_pattern_kind[of comments]
  have A: "\<forall>b \<in> set ?A. is_subreddit_activity b" by (auto simp: behavior_desc_activity)
  have fA: "filter is_subreddit_activity (?A @ ?P @ ?C) = ?A"
  proof -
    have "filter is_subreddit_activity ?A = ?A" using A by (simp add: filter_id_conv)
    moreover have "filter is_subreddit_activity ?P = []"
      using P(2) by (auto simp: filter_empty_conv dest: frequency_not_activity)
    moreover have "filter is_subreddit_activity ?C = []"
      using C(2) by (auto simp: filter_empty_conv dest: frequency_not_activity)
    ultimately show ?thesis by simp
  qed
  have fP: "filter is_posting_frequency (?A @ ?P @ ?C) = ?P"
  proof -
    have "filter is_posting_frequency ?A = []"
      using A by (auto simp: filter_empty_conv dest: frequency_not_activity)
    moreover have "filter is_posting_frequency ?P = ?P" using P(2) by (simp add: filter_id_conv)
    moreover have "filter is_posting_frequency ?C = []"
      using C(2) by (auto simp: filter_empty_conv dest: posting_not_commenting)
    ultimately show ?thesis by simp
  qed
  have fC: "filter is_commenting_frequency (?A @ ?P @ ?C) = ?C"
  proof -
    have "filter is_commenting_frequency ?A = []"
      using A by (auto simp: filter_empty_conv dest: frequency_not_activity)
    moreover have "filter is_commenting_frequency ?P = []"
      using P(2) by (auto simp: filter_empty_conv dest: posting_not_commenting)
    moreover have "filter is_commenting_frequency ?C = ?C"
      using C(2) by (simp add: filter_id_conv)
    ultimately show ?thesis by simp
  qed
  have len: "length (?A @ ?P @ ?C) \<le> 5" using lenA P(1) C(1) by simp
  have kinds: "\<forall>b \<in> set (?A @ ?P @ ?C).
         is_subreddit_activity b \<or> is_posting_frequency b \<or> is_commenting_frequency b"
    using A P(2) C(2) by auto
  show ?thesis
    unfolding Let_def analyze_behavior_and_habits_def fA fP fC
    using len lenA P(1) C(1) kinds by blast
qed

theorem behaviors_at_most_five_witness:
  "length (analyze_behavior_and_habits busy_posts busy_comments) = 5 \<and>
   S ''Frequent poster - shares content regularly''
     \<in> set (analyze_behavior_and_habits busy_posts busy_comments) \<and>
   (is_subreddit_activity (S ''Frequent poster - shares content regularly'') \<or>
    is_posting_frequency (S ''Frequent poster - shares content regularly'') \<or>
    is_commenting_frequency (S ''Frequent poster - shares content regularly'')) \<and>
   length (filter is_subreddit_activity (analyze_behavior_and_habits busy_posts busy_comments))
     \<le> 3"
proof -
  have bs: "analyze_behavior_and_habits busy_posts busy_comments =
     [S ''Active in r/haskell community with 51 posts/comments'',
      S ''Active in r/python community with 8 posts/comments'',
      S ''Active in r/golang community with 7 posts/comments'',
      S ''Frequent poster - shares content regularly'',
      S ''Very active commenter - engages frequently in discussions'']"
    by code_simp
  have l: "length (analyze_behavior_and_habits busy_posts busy_comments) = 5"
    by (simp add: bs)
  have m: "S ''Frequent poster - shares content regularly''
     \<in> set (analyze_behavior_and_habits busy_posts busy_comments)"
    by (simp add: bs)
  note T = behaviors_at_most_five[of busy_posts busy_comments, unfolded Let_def]
  from T m l show ?thesis by blast
qed

text \<open>
  C10. Posts and comments with an empty subreddit field add nothing to the frequency
  dictionary: it is the one built without them, the empty name is no key of it, and no
  behavior is the activity string of the empty name, whatever the count.
\<close>

theorem empty_subreddit_not_counted:
  "subreddit_counts posts comments =
     subreddit_counts (filter (\<lambda>p. p_subreddit p \<noteq> []) posts)
       (filter (\<lambda>c. c_subreddit c \<noteq> []) comments) \<and>
   [] \<notin> fst ` set (subreddit_counts posts comments) \<and>
   (\<forall>n. behavior_desc ([], n) \<notin> set (analyze_behavior_and_habits posts comments))"
proof -
  let ?subs = "subreddit_mentions posts comments"
  have "subreddit_mentions (filter (\<lambda>p. p_subreddit p \<noteq> []) posts)
          (filter (\<lambda>c. c_subreddit c \<noteq> []) comments) = ?subs"
    by (simp add: subreddit_mentions_def filter_map comp_def)
  then have a: "subreddit_counts posts comments =
     subreddit_counts (filter (\<lambda>p. p_subreddit p \<noteq> []) posts)
       (filter (\<lambda>c. c_subreddit c \<noteq> []) comments)"
    by (simp add: subreddit_counts_counted)
  have nonempty: "[] \<notin> set ?subs" by (simp add: subreddit_mentions_def)
  then have b: "[] \<notin> fst ` set (subreddit_counts posts comments)"
    by (simp add: subreddit_counts_counted counted_keys)
  have c: "behavior_desc ([], n) \<notin> set (analyze_behavior_and_habits posts comments)" for n
  proof
    assume "behavior_desc ([], n) \<in> set (analyze_behavior_and_habits posts comments)"
    then consider
        x where "x \<in> set (top_subreddits posts comments)" "behavior_desc ([], n) = behavior_desc x"
      | "behavior_desc ([], n) \<in> set (posting_pattern posts)"
      | "behavior_desc ([], n) \<in> set (commenting_pattern comments)"
      by (auto simp: analyze_behavior_and_habits_def)
    then show False
    proof cases
      case 1
      then have "x \<in> set (counted ?subs)" using top_subreddits_subset by blast
      then have "fst x \<in> set ?subs" using counted_keys[of ?subs] by force
      with nonempty have "fst x \<noteq> []" by auto
      then have "behavior_desc (fst x, snd x) \<noteq> behavior_desc ([], n)"
        by (rule behavior_desc_empty_name)
      with 1 show False by simp
    next
      case 2
      then have "is_posting_frequency (behavior_desc ([], n))"
        using posting_pattern_kind(2) by blast
      then show False using frequency_not_activity(1) behavior_desc_activity by blast
    next
      case 3
      then have "is_commenting_frequency (behavior_desc ([], n))"
        using commenting_pattern_kind(2) by blast
      then show False using frequency_not_activity(2) behavior_desc_activity by blast
    qed
  qed
  from a b c show ?thesis by blast
qed

theorem empty_subreddit_not_counted_witness:
  "p_subreddit (hd unnamed_posts) = [] \<and>
   subreddit_counts unnamed_posts [] = [(S ''python'', 1)] \<and>
   analyze_behavior_and_habits unnamed_posts [] =
     [S ''Active in r/python community with 1 posts/comments''] \<and>
   [] \<notin> fst ` set (subreddit_counts unnamed_posts []) \<and>
   behavior_desc ([], 1) \<notin> set (analyze_behavior_and_habits unnamed_posts [])"
proof -
  have h: "p_subreddit (hd unnamed_posts) = []"
    by (simp add: unnamed_posts_def example_post_def S_def)
  have c: "subreddit_counts unnamed_posts [] = [(S ''python'', 1)]"
    by code_simp
  have b: "analyze_behavior_and_habits unnamed_posts [] =
     [S ''Active in r/python community with 1 posts/comments'']"
    by code_simp
  note T = empty_subreddit_not_counted[of unnamed_posts "[]"]
  from T h c b show ?thesis by blast
qed

end
